theory Spec2Isabelle
  imports Complex_Main "HOL-Library.Word"
begin

section \<open>Data model of \<^verbatim>\<open>point_io.hpp\<close>\<close>

text \<open>
  A \<^verbatim>\<open>uint8_t\<close> is an 8-bit word. A \<^verbatim>\<open>float\<close> is represented by its 32-bit object
  representation: the codec only copies coordinates and normals between memory and the
  file, and the spatial index, which computes with them, is taken from outside. \<^verbatim>\<open>std::array<T, 3>\<close> is a triple.
\<close>

type_synonym byte = "8 word"
type_synonym float32 = "32 word"
type_synonym 'a array3 = "'a \<times> 'a \<times> 'a"

text \<open>
  \<^verbatim>\<open>struct PointSet\<close>. The pointer \<^verbatim>\<open>base\<close> is an optional address, the opaque handle
  \<^verbatim>\<open>kdTree\<close> is reduced to whether the index has been built (\<^verbatim>\<open>nullptr\<close> is \<open>False\<close>),
  and the \<^verbatim>\<open>double m_spacing\<close> is a real number (initially \<open>-1\<close>).
\<close>

record PointSet =
  points :: "float32 array3 list"
  colors :: "byte array3 list"
  normals :: "float32 array3 list"
  labels :: "byte list"
  views :: "byte list"
  pointMap :: "nat list"
  base :: "nat option"
  kdTree :: bool
  m_spacing :: real

text \<open>The value of \<^verbatim>\<open>new PointSet()\<close>: empty columns and the default member initialisers.\<close>

definition newPointSet :: PointSet where
  "newPointSet = \<lparr>points = [], colors = [], normals = [], labels = [], views = [],
     pointMap = [], base = None, kdTree = False, m_spacing = - 1\<rparr>"

definition count :: "PointSet \<Rightarrow> nat" where
  "count pSet = length (points pSet)"

definition hasNormals :: "PointSet \<Rightarrow> bool" where
  "hasNormals pSet = (length (normals pSet) > 0)"

definition hasColors :: "PointSet \<Rightarrow> bool" where
  "hasColors pSet = (length (colors pSet) > 0)"

definition hasViews :: "PointSet \<Rightarrow> bool" where
  "hasViews pSet = (length (views pSet) > 0)"

definition hasLabels :: "PointSet \<Rightarrow> bool" where
  "hasLabels pSet = (length (labels pSet) > 0)"

text \<open>
  Every exception the two source files can raise, one constructor per \<^verbatim>\<open>throw\<close> site or
  throwing library call (\<open>JsonParseError\<close> for the JSON parser). \<open>UndefinedBehaviour\<close> stands for the operations C++ leaves
  undefined (an unchecked \<^verbatim>\<open>operator[]\<close> out of range, signed overflow, the conversion
  of a NaN to an integer): the model stops there instead of inventing a value.
\<close>

datatype error =
    CannotOpenFile
  | HeaderNotPly
  | InvalidPlyFile
  | ExpectedProperty string string
  | ColorsNotContiguous
  | UnsupportedExtension
  | StoiInvalidArgument
  | StoiOutOfRange
  | SubstrOutOfRange
  | LengthError
  | JsonParseError
  | UndefinedBehaviour

definition bindE :: "error + 'a \<Rightarrow> ('a \<Rightarrow> error + 'b) \<Rightarrow> error + 'b" where
  "bindE m f = (case m of Inl e \<Rightarrow> Inl e | Inr x \<Rightarrow> f x)"

section \<open>Streams and text\<close>

text \<open>
  An input stream is the characters not yet consumed, or a stream that is no longer
  \<^verbatim>\<open>good()\<close>: once \<^verbatim>\<open>eofbit\<close> or \<^verbatim>\<open>failbit\<close> is set every later extraction is a no-op,
  and nothing in the source ever clears the state.
\<close>

datatype istream = Good string | NotGood

definition endl :: string where
  "endl = [CHR 0x0A]"

text \<open>
  \<^verbatim>\<open>std::getline(is, str, delim)\<close>: returns the new \<^verbatim>\<open>str\<close>, the new stream and whether
  the stream converts to \<^verbatim>\<open>true\<close> afterwards (\<^verbatim>\<open>!fail()\<close>). On a stream that is not good
  the string is left as it was. Reaching the end of input before the delimiter sets
  \<^verbatim>\<open>eofbit\<close>, and also \<^verbatim>\<open>failbit\<close> when no character was extracted.
\<close>

definition getline :: "char \<Rightarrow> istream \<Rightarrow> string \<Rightarrow> string \<times> istream \<times> bool" where
  "getline delim s str =
     (case s of
        NotGood \<Rightarrow> (str, NotGood, False)
      | Good cs \<Rightarrow>
          if delim \<in> set cs
          then (takeWhile (\<lambda>c. c \<noteq> delim) cs, Good (tl (dropWhile (\<lambda>c. c \<noteq> delim) cs)), True)
          else if cs = [] then ([], NotGood, False)
          else (cs, NotGood, True))"

text \<open>\<^verbatim>\<open>line.erase(std::remove(line.begin(), line.end(), '\r'), line.end())\<close>\<close>

definition remove_cr :: "string \<Rightarrow> string" where
  "remove_cr line = filter (\<lambda>c. c \<noteq> CHR 0x0D) line"

text \<open>\<^verbatim>\<open>line.find(p) == 0\<close>\<close>

definition starts_with :: "string \<Rightarrow> string \<Rightarrow> bool" where
  "starts_with line p = (take (length p) line = p)"

text \<open>
  \<^verbatim>\<open>istream::read(buf, n)\<close>: the characters stored into the buffer and the new stream.
  A short read stores what is left and sets \<^verbatim>\<open>eofbit | failbit\<close>.
\<close>

definition read :: "nat \<Rightarrow> istream \<Rightarrow> string \<times> istream" where
  "read n s =
     (case s of
        NotGood \<Rightarrow> ([], NotGood)
      | Good cs \<Rightarrow> if n \<le> length cs then (take n cs, Good (drop n cs)) else (cs, NotGood))"

text \<open>The buffer after a read that stored \<open>got\<close> at its start.\<close>

definition overlay :: "'a list \<Rightarrow> 'a list \<Rightarrow> 'a list" where
  "overlay got buf = got @ drop (length got) buf"

subsection \<open>Integers as text\<close>

definition isspace :: "char \<Rightarrow> bool" where
  "isspace c = (c \<in> set [CHR 0x20, CHR 0x09, CHR 0x0A, CHR 0x0B, CHR 0x0C, CHR 0x0D])"

definition isdigit :: "char \<Rightarrow> bool" where
  "isdigit c = (48 \<le> (of_char c :: nat) \<and> (of_char c :: nat) \<le> 57)"

definition digits_value :: "string \<Rightarrow> nat" where
  "digits_value ds = foldl (\<lambda>a c. 10 * a + (of_char c - 48)) 0 ds"

text \<open>
  \<^verbatim>\<open>std::stoi\<close>: leading white space, an optional sign, then decimal digits; what follows
  the digits is ignored. No digit raises \<^verbatim>\<open>std::invalid_argument\<close>, a value outside the
  32-bit \<^verbatim>\<open>int\<close> raises \<^verbatim>\<open>std::out_of_range\<close>.
\<close>

definition stoi :: "string \<Rightarrow> error + int" where
  "stoi str =
     (let s1 = dropWhile isspace str;
          neg = (take 1 s1 = ''-'');
          s2 = (if take 1 s1 = ''-'' \<or> take 1 s1 = ''+'' then tl s1 else s1);
          ds = takeWhile isdigit s2;
          v = (if neg then - int (digits_value ds) else int (digits_value ds))
      in if ds = [] then Inl StoiInvalidArgument
         else if v < - 2147483648 \<or> 2147483647 < v then Inl StoiOutOfRange
         else Inr v)"

text \<open>The conversion of an \<^verbatim>\<open>int\<close> to the 64-bit \<^verbatim>\<open>size_t\<close>.\<close>

definition to_size_t :: "int \<Rightarrow> nat" where
  "to_size_t v = nat (v mod 18446744073709551616)"

text \<open>\<^verbatim>\<open>operator<<\<close> for a \<^verbatim>\<open>size_t\<close>: the decimal digits.\<close>

definition digit_char :: "nat \<Rightarrow> char" where
  "digit_char d = char_of (48 + d)"

function show_nat :: "nat \<Rightarrow> string" where
  "show_nat n = (if n < 10 then [digit_char n] else show_nat (n div 10) @ [digit_char (n mod 10)])"
  by pat_completeness auto
termination
  by (relation "measure id") auto

declare show_nat.simps [simp del]

section \<open>The header of a PLY file\<close>

text \<open>
  \<^verbatim>\<open>getVertexLine\<close>: the loop ends only by \<^verbatim>\<open>return\<close> or \<^verbatim>\<open>throw\<close>. When the input ends
  inside a comment line, the stream is no longer good, \<^verbatim>\<open>getline\<close> leaves \<^verbatim>\<open>line\<close> as it
  is and the loop never ends: the function is partial, \<open>None\<close> is not returning.
\<close>

partial_function (option) getVertexLine_loop :: "istream \<Rightarrow> string \<Rightarrow> (error + string \<times> istream) option" where
  "getVertexLine_loop reader line =
     (case getline (CHR 0x0A) reader line of
        (line', reader', _) \<Rightarrow>
          if starts_with line' ''element'' then Some (Inr (line', reader'))
          else if starts_with line' ''comment'' then getVertexLine_loop reader' line'
          else Some (Inl InvalidPlyFile))"

declare getVertexLine_loop.simps [code]

definition getVertexLine :: "istream \<Rightarrow> (error + string \<times> istream) option" where
  "getVertexLine reader = getVertexLine_loop reader []"

text \<open>The characters a stream still holds, for the termination of loops that consume it.\<close>

definition stream_size :: "istream \<Rightarrow> nat" where
  "stream_size s = (case s of NotGood \<Rightarrow> 0 | Good cs \<Rightarrow> Suc (length cs))"

text \<open>The loop \<^verbatim>\<open>while (std::getline(iss, token, ' ')) tokens.push_back(token)\<close>.\<close>

function tokens_loop :: "istream \<Rightarrow> string \<Rightarrow> string list" where
  "tokens_loop iss token =
     (case getline (CHR 0x20) iss token of
        (token', iss', ok) \<Rightarrow> if ok then token' # tokens_loop iss' token' else [])"
  by pat_completeness auto

termination
proof (relation "measure (\<lambda>(iss, token). stream_size iss)", goal_cases)
  case 1
  show ?case by simp
next
  case (2 iss token token' rest iss' ok)
  have shorter: "length (tl (dropWhile P cs)) < length cs" if "d \<in> set cs"
    for P and d :: char and cs
  proof -
    from that have "0 < length cs"
      by (cases cs) auto
    moreover have "length (dropWhile P cs) \<le> length cs"
      by (rule length_dropWhile_le)
    ultimately show ?thesis
      unfolding length_tl by linarith
  qed
  from 2 have "getline (CHR 0x20) iss token = (token', iss', True)"
    by simp
  then have "stream_size iss' < stream_size iss"
    unfolding getline_def stream_size_def
    by (cases iss) (auto simp: shorter simp del: length_tl split: if_splits)
  then show ?case
    by simp
qed

definition getVertexCount :: "string \<Rightarrow> error + nat" where
  "getVertexCount line =
     (let tokens = tokens_loop (Good line) []
      in if length tokens < 3 then Inl InvalidPlyFile
         else if tokens ! 0 \<noteq> ''element'' \<and> tokens ! 1 \<noteq> ''vertex'' then Inl InvalidPlyFile
         else bindE (stoi (tokens ! 2)) (\<lambda>v. Inr (to_size_t v)))"

text \<open>
  \<^verbatim>\<open>std::string::substr(pos, n)\<close> raises \<^verbatim>\<open>std::out_of_range\<close> when \<open>pos\<close> is beyond the
  end. The position \<^verbatim>\<open>line.length() - prop.length()\<close> is computed in \<^verbatim>\<open>size_t\<close> and wraps
  around when the line is shorter than the property name.
\<close>

definition substr :: "string \<Rightarrow> nat \<Rightarrow> nat \<Rightarrow> error + string" where
  "substr s pos n = (if length s < pos then Inl SubstrOutOfRange else Inr (take n (drop pos s)))"

definition size_sub :: "nat \<Rightarrow> nat \<Rightarrow> nat" where
  "size_sub a b = (if b \<le> a then a - b else 18446744073709551616 + a - b)"

definition checkHeader :: "istream \<Rightarrow> string \<Rightarrow> error + istream" where
  "checkHeader reader prop =
     (case getline (CHR 0x0A) reader [] of
        (line0, reader', _) \<Rightarrow>
          let line = remove_cr line0
          in bindE (substr line (size_sub (length line) (length prop)) (length prop))
               (\<lambda>found. if found \<noteq> prop then Inl (ExpectedProperty prop line)
                        else Inr reader'))"

definition hasHeader :: "string \<Rightarrow> string \<Rightarrow> error + bool" where
  "hasHeader line prop =
     bindE (substr line 0 8)
       (\<lambda>start. if start = ''property''
                then bindE (substr line (size_sub (length line) (length prop)) (length prop))
                       (\<lambda>found. Inr (found = prop))
                else Inr False)"

text \<open>The short-circuit \<^verbatim>\<open>||\<close> of two calls that may throw.\<close>

definition orE :: "error + bool \<Rightarrow> error + bool \<Rightarrow> error + bool" where
  "orE a b = bindE a (\<lambda>x. if x then Inr True else b)"

text \<open>The local variables of \<^verbatim>\<open>fastPlyReadPointSet\<close> that the property scan sets.\<close>

record scan_state =
  s_hasViews :: bool
  s_hasNormals :: bool
  s_hasColors :: bool
  s_labelDim :: string
  s_redIdx :: nat
  s_greenIdx :: nat
  s_blueIdx :: nat

definition scan_init :: scan_state where
  "scan_init = \<lparr>s_hasViews = False, s_hasNormals = False, s_hasColors = False,
     s_labelDim = [], s_redIdx = 0, s_greenIdx = 1, s_blueIdx = 2\<rparr>"

text \<open>The tests of one iteration of the \<^verbatim>\<open>while (line != "end_header")\<close> loop, at counter \<open>c\<close>.\<close>

definition scanLine :: "nat \<Rightarrow> scan_state \<Rightarrow> string \<Rightarrow> error + scan_state" where
  "scanLine c st line =
     bindE (orE (hasHeader line ''nx'') (orE (hasHeader line ''normal_x'') (hasHeader line ''normalx''))) (\<lambda>n.
     bindE (hasHeader line ''red'') (\<lambda>r.
     bindE (hasHeader line ''green'') (\<lambda>g.
     bindE (hasHeader line ''blue'') (\<lambda>b.
     bindE (hasHeader line ''views'') (\<lambda>v.
     bindE (hasHeader line ''label'') (\<lambda>l1.
     bindE (hasHeader line ''classification'') (\<lambda>l2.
     bindE (hasHeader line ''class'') (\<lambda>l3.
       Inr \<lparr>s_hasViews = (if v then True else s_hasViews st),
            s_hasNormals = (if n then True else s_hasNormals st),
            s_hasColors = (if r \<or> g \<or> b then True else s_hasColors st),
            s_labelDim = (if l3 then ''class'' else if l2 then ''classification''
                          else if l1 then ''label'' else s_labelDim st),
            s_redIdx = (if r then c else s_redIdx st),
            s_greenIdx = (if g then c else s_greenIdx st),
            s_blueIdx = (if b then c else s_blueIdx st)\<rparr>))))))))"

text \<open>
  The loop itself, entered with the line already read. \<^verbatim>\<open>if (c++ > 100) break\<close> leaves the
  loop after the tests of iteration 101 without reading a further line.
\<close>

function scan_loop :: "nat \<Rightarrow> scan_state \<Rightarrow> string \<Rightarrow> istream \<Rightarrow> error + scan_state \<times> istream" where
  "scan_loop c st line reader =
     (if line = ''end_header'' then Inr (st, reader)
      else case scanLine c st line of
             Inl e \<Rightarrow> Inl e
           | Inr st' \<Rightarrow>
               if c > 100 then Inr (st', reader)
               else case getline (CHR 0x0A) reader line of
                      (line', reader', _) \<Rightarrow> scan_loop (Suc c) st' (remove_cr line') reader')"
  by pat_completeness auto
termination
  by (relation "measure (\<lambda>(c, st, line, reader). 101 - c)") auto

declare scan_loop.simps [simp del]

text \<open>What the header fixes for the body: the record count, the encoding and the columns.\<close>

record layout =
  l_count :: nat
  l_ascii :: bool
  l_hasNormals :: bool
  l_hasColors :: bool
  l_hasViews :: bool
  l_hasLabels :: bool
  l_redIdx :: nat
  l_greenIdx :: nat
  l_blueIdx :: nat

text \<open>
  The colour offsets are re-based on the smallest of the three and accepted when they
  add up to 3.
\<close>

definition resolveColors :: "scan_state \<Rightarrow> error + nat \<times> nat \<times> nat" where
  "resolveColors st =
     (let colorIdxMin = min (min (s_redIdx st) (s_greenIdx st)) (s_blueIdx st);
          redIdx = s_redIdx st - colorIdxMin;
          greenIdx = s_greenIdx st - colorIdxMin;
          blueIdx = s_blueIdx st - colorIdxMin
      in if redIdx + greenIdx + blueIdx \<noteq> 3 then Inl ColorsNotContiguous
         else Inr (redIdx, greenIdx, blueIdx))"

text \<open>
  \<^verbatim>\<open>fastPlyReadPointSet\<close> from the first line to the colour check. The variable \<^verbatim>\<open>line\<close> of
  the function is threaded through its \<^verbatim>\<open>getline\<close> calls, since a failed one leaves it as it
  was.
\<close>

definition readHeader :: "string \<Rightarrow> (error + layout \<times> istream) option" where
  "readHeader content =
     (case getline (CHR 0x0A) (Good content) [] of
        (l1, reader1, _) \<Rightarrow>
     if remove_cr l1 \<noteq> ''ply'' then Some (Inl HeaderNotPly)
     else case getline (CHR 0x0A) reader1 (remove_cr l1) of
        (l2, reader2, _) \<Rightarrow>
     case getVertexLine reader2 of
       None \<Rightarrow> None
     | Some (Inl e) \<Rightarrow> Some (Inl e)
     | Some (Inr (vertexLine, reader3)) \<Rightarrow>
     Some (bindE (getVertexCount vertexLine) (\<lambda>n.
           bindE (checkHeader reader3 ''x'') (\<lambda>reader4.
           bindE (checkHeader reader4 ''y'') (\<lambda>reader5.
           bindE (checkHeader reader5 ''z'') (\<lambda>reader6.
           case getline (CHR 0x0A) reader6 (remove_cr l2) of
             (l3, reader7, _) \<Rightarrow>
           bindE (scan_loop 0 scan_init (remove_cr l3) reader7) (\<lambda>(st, reader8).
           bindE (resolveColors st) (\<lambda>(redIdx, greenIdx, blueIdx).
             Inr (\<lparr>l_count = n, l_ascii = (remove_cr l2 = ''format ascii 1.0''),
                    l_hasNormals = s_hasNormals st, l_hasColors = s_hasColors st,
                    l_hasViews = s_hasViews st, l_hasLabels = (s_labelDim st \<noteq> []),
                    l_redIdx = redIdx, l_greenIdx = greenIdx, l_blueIdx = blueIdx\<rparr>,
                  reader8)))))))))"

section \<open>Bytes of a record\<close>

text \<open>
  Binary input and output copy object representations. On the little-endian hosts the
  format is written for, the four bytes of a \<^verbatim>\<open>float\<close> are those of its 32-bit pattern,
  least significant first.
\<close>

definition byte_char :: "byte \<Rightarrow> char" where
  "byte_char b = char_of (unat b)"

definition char_byte :: "char \<Rightarrow> byte" where
  "char_byte c = of_nat (of_char c)"

primrec le_bytes :: "nat \<Rightarrow> nat \<Rightarrow> string" where
  "le_bytes 0 n = []"
| "le_bytes (Suc k) n = char_of n # le_bytes k (n div 256)"

primrec le_value :: "string \<Rightarrow> nat" where
  "le_value [] = 0"
| "le_value (c # cs) = of_char c + 256 * le_value cs"

definition float_bytes :: "float32 \<Rightarrow> string" where
  "float_bytes w = le_bytes 4 (unat w)"

definition bytes_float :: "string \<Rightarrow> float32" where
  "bytes_float bs = of_nat (le_value bs)"

definition floats3_bytes :: "float32 array3 \<Rightarrow> string" where
  "floats3_bytes a = (case a of (x, y, z) \<Rightarrow> float_bytes x @ float_bytes y @ float_bytes z)"

definition bytes_floats3 :: "string \<Rightarrow> float32 array3" where
  "bytes_floats3 bs =
     (bytes_float (take 4 bs), bytes_float (take 4 (drop 4 bs)), bytes_float (take 4 (drop 8 bs)))"

definition bytes3_chars :: "byte array3 \<Rightarrow> string" where
  "bytes3_chars a = (case a of (x, y, z) \<Rightarrow> [byte_char x, byte_char y, byte_char z])"

definition chars_bytes3 :: "string \<Rightarrow> byte array3" where
  "chars_bytes3 bs = (char_byte (bs ! 0), char_byte (bs ! 1), char_byte (bs ! 2))"

text \<open>
  \<^verbatim>\<open>a[i] = v\<close> on a \<^verbatim>\<open>std::array<T, 3>\<close>: an index beyond 2 is outside the array.
\<close>

definition array3_set :: "'a array3 \<Rightarrow> nat \<Rightarrow> 'a \<Rightarrow> error + 'a array3" where
  "array3_set a i v =
     (case a of (x, y, z) \<Rightarrow>
        if i = 0 then Inr (v, y, z)
        else if i = 1 then Inr (x, v, z)
        else if i = 2 then Inr (x, y, v)
        else Inl UndefinedBehaviour)"

section \<open>Reading the records\<close>

text \<open>
  \<^verbatim>\<open>std::vector::resize\<close> beyond \<^verbatim>\<open>max_size()\<close> raises \<^verbatim>\<open>std::length_error\<close>
  (\<^verbatim>\<open>PTRDIFF_MAX / sizeof(T)\<close> elements, with a 64-bit \<^verbatim>\<open>ptrdiff_t\<close>). Memory is assumed
  to suffice below that bound. New elements are value-initialised.
\<close>

definition vector_max_size :: "nat \<Rightarrow> nat" where
  "vector_max_size elem_bytes = 9223372036854775807 div elem_bytes"

definition allocate :: "layout \<Rightarrow> error + PointSet" where
  "allocate l =
     (if vector_max_size 12 < l_count l then Inl LengthError
      else Inr (newPointSet
        \<lparr>points := replicate (l_count l) (0, 0, 0),
         colors := (if l_hasColors l then replicate (l_count l) (0, 0, 0) else []),
         normals := (if l_hasNormals l then replicate (l_count l) (0, 0, 0) else []),
         labels := (if l_hasLabels l then replicate (l_count l) 0 else []),
         views := (if l_hasViews l then replicate (l_count l) 0 else [])\<rparr>))"

text \<open>
  One iteration of the binary loop: the Dataset, the stream and the local buffer
  \<^verbatim>\<open>uint8_t color[3]\<close>. No read is checked: a read that fails leaves its target as it was,
  and the colour assignments still copy the buffer.
\<close>

definition readColors :: "layout \<Rightarrow> nat \<Rightarrow> PointSet \<times> istream \<times> byte array3 \<Rightarrow>
    error + PointSet \<times> istream \<times> byte array3" where
  "readColors l i st =
     (case st of (r, reader, color) \<Rightarrow>
        case read 3 reader of (got, reader') \<Rightarrow>
          let color' = chars_bytes3 (overlay got (bytes3_chars color))
          in bindE (array3_set (colors r ! i) (l_redIdx l) (fst color')) (\<lambda>c1.
             bindE (array3_set c1 (l_greenIdx l) (fst (snd color'))) (\<lambda>c2.
             bindE (array3_set c2 (l_blueIdx l) (snd (snd color'))) (\<lambda>c3.
               Inr (r\<lparr>colors := (colors r)[i := c3]\<rparr>, reader', color')))))"

definition readBinaryRecord :: "layout \<Rightarrow> nat \<Rightarrow> PointSet \<times> istream \<times> byte array3 \<Rightarrow>
    error + PointSet \<times> istream \<times> byte array3" where
  "readBinaryRecord l i st =
     (case st of (r, reader, color) \<Rightarrow>
        case read 12 reader of (gotP, reader1) \<Rightarrow>
        let r1 = r\<lparr>points := (points r)[i := bytes_floats3 (overlay gotP (floats3_bytes (points r ! i)))]\<rparr>;
            gotN = (if l_hasNormals l then fst (read 12 reader1) else []);
            reader2 = (if l_hasNormals l then snd (read 12 reader1) else reader1);
            r2 = (if l_hasNormals l
                  then r1\<lparr>normals := (normals r1)[i := bytes_floats3 (overlay gotN (floats3_bytes (normals r1 ! i)))]\<rparr>
                  else r1)
        in bindE (if l_hasColors l then readColors l i (r2, reader2, color) else Inr (r2, reader2, color))
             (\<lambda>(r3, reader3, color3).
                let gotV = (if l_hasViews l then fst (read 1 reader3) else []);
                    reader4 = (if l_hasViews l then snd (read 1 reader3) else reader3);
                    r4 = (if l_hasViews l
                          then r3\<lparr>views := (views r3)[i := char_byte (hd (overlay gotV [byte_char (views r3 ! i)]))]\<rparr>
                          else r3);
                    gotL = (if l_hasLabels l then fst (read 1 reader4) else []);
                    reader5 = (if l_hasLabels l then snd (read 1 reader4) else reader4);
                    r5 = (if l_hasLabels l
                          then r4\<lparr>labels := (labels r4)[i := char_byte (hd (overlay gotL [byte_char (labels r4 ! i)]))]\<rparr>
                          else r4)
                in Inr (r5, reader5, color3)))"

text \<open>The loop \<^verbatim>\<open>for (size_t i = 0; i < count; i++)\<close>, over the indices it visits.\<close>

fun readBinaryLoop :: "layout \<Rightarrow> nat list \<Rightarrow> PointSet \<times> istream \<times> byte array3 \<Rightarrow>
    error + PointSet \<times> istream \<times> byte array3" where
  "readBinaryLoop l [] st = Inr st"
| "readBinaryLoop l (i # is) st =
     (case readBinaryRecord l i st of Inl e \<Rightarrow> Inl e | Inr st' \<Rightarrow> readBinaryLoop l is st')"

text \<open>
  \<^verbatim>\<open>fastPlyReadPointSet\<close>. The file is its content, \<open>None\<close> when it cannot be opened. Two
  things are taken from outside: \<open>asciiRecords\<close>, the text branch of the record loop
  (formatted extraction of decimal floating-point numbers), and \<open>color0\<close>, the content of
  the uninitialised local array \<^verbatim>\<open>color\<close> when the binary loop starts.
\<close>

definition fastPlyReadPointSet ::
    "(layout \<Rightarrow> PointSet \<Rightarrow> istream \<Rightarrow> error + PointSet) \<Rightarrow> byte array3 \<Rightarrow> string option \<Rightarrow>
     (error + PointSet) option" where
  "fastPlyReadPointSet asciiRecords color0 file =
     (case file of
        None \<Rightarrow> Some (Inl CannotOpenFile)
      | Some content \<Rightarrow>
          case readHeader content of
            None \<Rightarrow> None
          | Some (Inl e) \<Rightarrow> Some (Inl e)
          | Some (Inr (l, reader)) \<Rightarrow>
              Some (bindE (allocate l) (\<lambda>r.
                if l_ascii l then asciiRecords l r reader
                else bindE (readBinaryLoop l [0..<l_count l] (r, reader, color0))
                       (\<lambda>(r', reader', color'). Inr r'))))"

section \<open>Writing\<close>

text \<open>The header lines \<^verbatim>\<open>fastPlySavePointSet\<close> writes for a record count and four columns.\<close>

definition headerText :: "nat \<Rightarrow> bool \<Rightarrow> bool \<Rightarrow> bool \<Rightarrow> bool \<Rightarrow> string" where
  "headerText n hasN hasC hasV hasL =
     ''ply'' @ endl @
     ''format binary_little_endian 1.0'' @ endl @
     ''comment Generated by OpenPointClass'' @ endl @
     ''element vertex '' @ show_nat n @ endl @
     ''property float x'' @ endl @
     ''property float y'' @ endl @
     ''property float z'' @ endl @
     (if hasN then ''property float nx'' @ endl @
                   ''property float ny'' @ endl @
                   ''property float nz'' @ endl else []) @
     (if hasC then ''property uchar red'' @ endl @
                   ''property uchar green'' @ endl @
                   ''property uchar blue'' @ endl else []) @
     (if hasV then ''property uchar views'' @ endl else []) @
     (if hasL then ''property uchar classification'' @ endl else []) @
     ''end_header'' @ endl"

text \<open>An unchecked \<^verbatim>\<open>v[i]\<close> of a \<^verbatim>\<open>std::vector\<close>.\<close>

definition vec_at :: "'a list \<Rightarrow> nat \<Rightarrow> error + 'a" where
  "vec_at v i = (if i < length v then Inr (v ! i) else Inl UndefinedBehaviour)"

definition writeRecord :: "PointSet \<Rightarrow> nat \<Rightarrow> error + string" where
  "writeRecord pSet i =
     bindE (vec_at (points pSet) i) (\<lambda>p.
     bindE (if hasNormals pSet then bindE (vec_at (normals pSet) i) (\<lambda>n. Inr (floats3_bytes n)) else Inr []) (\<lambda>bn.
     bindE (if hasColors pSet then bindE (vec_at (colors pSet) i) (\<lambda>c. Inr (bytes3_chars c)) else Inr []) (\<lambda>bc.
     bindE (if hasViews pSet then bindE (vec_at (views pSet) i) (\<lambda>v. Inr [byte_char v]) else Inr []) (\<lambda>bv.
     bindE (if hasLabels pSet then bindE (vec_at (labels pSet) i) (\<lambda>l. Inr [byte_char l]) else Inr []) (\<lambda>bl.
       Inr (floats3_bytes p @ bn @ bc @ bv @ bl))))))"

fun writeRecords :: "PointSet \<Rightarrow> nat list \<Rightarrow> error + string" where
  "writeRecords pSet [] = Inr []"
| "writeRecords pSet (i # is) =
     bindE (writeRecord pSet i) (\<lambda>b. bindE (writeRecords pSet is) (\<lambda>bs. Inr (b @ bs)))"

text \<open>
  \<^verbatim>\<open>fastPlySavePointSet\<close>: the bytes written to the file (the output stream is assumed to
  open and to accept them).
\<close>

definition fastPlySavePointSet :: "PointSet \<Rightarrow> error + string" where
  "fastPlySavePointSet pSet =
     bindE (writeRecords pSet [0..<count pSet])
       (\<lambda>body. Inr (headerText (count pSet) (hasNormals pSet) (hasColors pSet)
                      (hasViews pSet) (hasLabels pSet) @ body))"

section \<open>Saving through \<^verbatim>\<open>savePointSet\<close>\<close>

text \<open>
  The loop at the start of \<^verbatim>\<open>savePointSet\<close> reads \<^verbatim>\<open>pSet.labels[idx]\<close> for every point and
  discards the value.
\<close>

fun labelLoop :: "PointSet \<Rightarrow> nat list \<Rightarrow> error + unit" where
  "labelLoop pSet [] = Inr ()"
| "labelLoop pSet (idx # is) = bindE (vec_at (labels pSet) idx) (\<lambda>label. labelLoop pSet is)"

text \<open>
  \<^verbatim>\<open>savePointSet\<close>, given the extension of the file name. \<open>pdalSave\<close> is the writer of the
  other formats, \<^verbatim>\<open>pdalSavePointSet\<close>, which belongs to an external library.
\<close>

definition savePointSet :: "(PointSet \<Rightarrow> error + string) \<Rightarrow> string \<Rightarrow> PointSet \<Rightarrow> error + string" where
  "savePointSet pdalSave ext pSet =
     bindE (labelLoop pSet [0..<count pSet])
       (\<lambda>u. if ext = ''.ply'' then fastPlySavePointSet pSet else pdalSave pSet)"

text \<open>Saving with the native writer and reading the bytes back with the native reader.\<close>

definition saveThenLoad ::
    "(layout \<Rightarrow> PointSet \<Rightarrow> istream \<Rightarrow> error + PointSet) \<Rightarrow> byte array3 \<Rightarrow> PointSet \<Rightarrow>
     (error + PointSet) option" where
  "saveThenLoad asciiRecords color0 pSet =
     (case fastPlySavePointSet pSet of
        Inl e \<Rightarrow> Some (Inl e)
      | Inr file \<Rightarrow> fastPlyReadPointSet asciiRecords color0 (Some file))"

section \<open>Label remapping in \<^verbatim>\<open>readPointSet\<close>\<close>

text \<open>
  \<^verbatim>\<open>trainingCodes[name]\<close> on the \<^verbatim>\<open>std::unordered_map\<close> returned by \<^verbatim>\<open>getTrainingCodes()\<close>
  (declared in \<^verbatim>\<open>labels.hpp\<close>, taken here as an association list): a missing name is
  inserted with the value-initialised code 0.
\<close>

definition lookupCode :: "(string \<times> int) list \<Rightarrow> string \<Rightarrow> int" where
  "lookupCode trainingCodes name = (case map_of trainingCodes name of Some code \<Rightarrow> code | None \<Rightarrow> 0)"

text \<open>The new value of \<^verbatim>\<open>label\<close> under an explicit mapping.\<close>

definition mappedLabel :: "(int \<times> string) list \<Rightarrow> (string \<times> int) list \<Rightarrow> int \<Rightarrow> int" where
  "mappedLabel mappings trainingCodes label =
     (case map_of mappings label of
        Some name \<Rightarrow> lookupCode trainingCodes name
      | None \<Rightarrow> lookupCode trainingCodes ''unassigned'')"

text \<open>
  Either remapping loop: \<^verbatim>\<open>r->labels[idx]\<close> is read unchecked, converted to \<^verbatim>\<open>int\<close>, and the
  new \<^verbatim>\<open>int\<close> is stored back narrowed to \<^verbatim>\<open>uint8_t\<close>.
\<close>

fun remapLoop :: "(int \<Rightarrow> int) \<Rightarrow> nat list \<Rightarrow> PointSet \<Rightarrow> error + PointSet" where
  "remapLoop f [] r = Inr r"
| "remapLoop f (idx # is) r =
     bindE (vec_at (labels r) idx)
       (\<lambda>label. remapLoop f is (r\<lparr>labels := (labels r)[idx := of_int (f (uint label))]\<rparr>))"

text \<open>
  The two loops of the block \<^verbatim>\<open>if (r->hasLabels()) { ... }\<close>, once \<open>mappings\<close>, the result
  of \<^verbatim>\<open>getClassMappings(filename)\<close>, is there. \<open>asprs2TrainCodes\<close> is the table of
  \<^verbatim>\<open>getAsprs2TrainCodes()\<close>, declared in \<^verbatim>\<open>labels.hpp\<close>.
\<close>

definition remapLabels ::
    "(int \<times> string) list \<Rightarrow> (string \<times> int) list \<Rightarrow> (int \<Rightarrow> int) \<Rightarrow> PointSet \<Rightarrow> error + PointSet" where
  "remapLabels mappings trainingCodes asprs2TrainCodes r =
     (if hasLabels r
      then if mappings \<noteq> []
           then remapLoop (mappedLabel mappings trainingCodes) [0..<count r] r
           else remapLoop asprs2TrainCodes [0..<count r] r
      else Inr r)"

text \<open>
  \<^verbatim>\<open>getClassMappings(filename)\<close>. Its first test takes
  \<^verbatim>\<open>filename.substr(filename.length() - 5 - 4, 5)\<close>, with the position computed in \<^verbatim>\<open>size_t\<close>:
  a name of fewer than nine characters raises \<^verbatim>\<open>std::out_of_range\<close>. What follows (the
  search for the JSON file, the JSON parser, \<^verbatim>\<open>std::stoi\<close> on the keys) depends on the file
  system and on the JSON library: \<open>jsonMappings\<close> is the mapping it builds or the exception
  it ends with.
\<close>

definition getClassMappings :: "string \<Rightarrow> (error + (int \<times> string) list) \<Rightarrow> error + (int \<times> string) list" where
  "getClassMappings filename jsonMappings =
     bindE (substr filename (size_sub (size_sub (length filename) 5) 4) 5) (\<lambda>suffix. jsonMappings)"

text \<open>
  \<^verbatim>\<open>readPointSet\<close>, given the file name and its extension (\<^verbatim>\<open>p.extension().string()\<close>);
  \<open>pdalRead\<close> is what \<^verbatim>\<open>pdalReadPointSet\<close> returns for the file. The mapping is looked
  for only when the Dataset has labels.
\<close>

definition readPointSet ::
    "(layout \<Rightarrow> PointSet \<Rightarrow> istream \<Rightarrow> error + PointSet) \<Rightarrow> byte array3 \<Rightarrow> (error + PointSet) \<Rightarrow>
     (error + (int \<times> string) list) \<Rightarrow> (string \<times> int) list \<Rightarrow> (int \<Rightarrow> int) \<Rightarrow>
     string \<Rightarrow> string \<Rightarrow> string option \<Rightarrow> (error + PointSet) option" where
  "readPointSet asciiRecords color0 pdalRead jsonMappings trainingCodes asprs2TrainCodes filename ext file =
     (case (if ext = ''.ply'' then fastPlyReadPointSet asciiRecords color0 file else Some pdalRead) of
        None \<Rightarrow> None
      | Some (Inl e) \<Rightarrow> Some (Inl e)
      | Some (Inr r) \<Rightarrow>
          Some (if hasLabels r
                then bindE (getClassMappings filename jsonMappings)
                       (\<lambda>mappings. remapLabels mappings trainingCodes asprs2TrainCodes r)
                else Inr r))"

section \<open>Building a derived Dataset\<close>

text \<open>\<^verbatim>\<open>appendPoint\<close> and \<^verbatim>\<open>trackPoint\<close>; the second returns the new source Dataset.\<close>

definition appendPoint :: "PointSet \<Rightarrow> PointSet \<Rightarrow> nat \<Rightarrow> error + PointSet" where
  "appendPoint dst src idx =
     bindE (vec_at (points src) idx) (\<lambda>p.
     bindE (vec_at (colors src) idx) (\<lambda>c.
       Inr (dst\<lparr>points := points dst @ [p], colors := colors dst @ [c]\<rparr>)))"

definition trackPoint :: "PointSet \<Rightarrow> PointSet \<Rightarrow> nat \<Rightarrow> error + PointSet" where
  "trackPoint dst src idx =
     (if idx < length (pointMap src)
      then Inr (src\<lparr>pointMap := (pointMap src)[idx := size_sub (count dst) 1]\<rparr>)
      else Inl UndefinedBehaviour)"

section \<open>The spacing estimator\<close>

text \<open>
  \<^verbatim>\<open>PointSet::spacing\<close> computes in \<^verbatim>\<open>float\<close> and \<^verbatim>\<open>double\<close>; the model computes in the real
  numbers, without rounding. Two capabilities come from outside: \<open>randomDis hi i\<close> is the
  \<open>i\<close>-th index the generator draws from \<open>[0, hi]\<close>, and \<open>knnSearch pts q n\<close> the squared
  distances (ascending, not negative) that the spatial index stores for the at most \<open>n\<close>
  nearest neighbours of \<open>q\<close>. The \<^verbatim>\<open>std::unordered_map\<close> of bucket counts is an association
  list; its iteration order, which C++ leaves open, is the order of first insertion.

  The model therefore fixes two things the code does not: the bucket of a sample whose
  statistic is rounded by \<^verbatim>\<open>float\<close> arithmetic across a multiple of \<open>1/100\<close> (or is too large
  for \<^verbatim>\<open>size_t\<close>), and the bucket chosen among several that share the largest count. The
  statements about \<open>spacing\<close> below hold for every choice of bucket, and the sample used
  against the statistic has distances that \<^verbatim>\<open>float\<close> represents exactly.
\<close>

definition sampleStatistic :: "int \<Rightarrow> real list \<Rightarrow> real" where
  "sampleStatistic kNeighbors sqr_dists =
     (\<Sum>j\<leftarrow>[1..<to_size_t kNeighbors]. sqrt (sqr_dists ! j)) / real_of_int kNeighbors"

definition bucketKey :: "real \<Rightarrow> nat" where
  "bucketKey s = nat \<lceil>s * 100\<rceil>"

text \<open>
  The statistic of one sample from the distance buffer. The inner loop reads
  \<^verbatim>\<open>sqr_dists[j]\<close> for \<open>1 \<le> j < kNeighbors\<close> (compared as \<^verbatim>\<open>size_t\<close>), and with
  \<open>kNeighbors = 0\<close> the quotient is \<open>0 / 0\<close>, whose conversion to \<^verbatim>\<open>size_t\<close> is undefined.
\<close>

definition sampleKey :: "int \<Rightarrow> real list \<Rightarrow> error + nat" where
  "sampleKey kNeighbors sqr_dists =
     (if 1 < to_size_t kNeighbors \<and> length sqr_dists < to_size_t kNeighbors then Inl UndefinedBehaviour
      else if kNeighbors = 0 then Inl UndefinedBehaviour
      else Inr (bucketKey (sampleStatistic kNeighbors sqr_dists)))"

fun bump :: "nat \<Rightarrow> (nat \<times> nat) list \<Rightarrow> (nat \<times> nat) list" where
  "bump k [] = [(k, 1)]"
| "bump k ((k', c) # m) = (if k = k' then (k', c + 1) # m else (k', c) # bump k m)"

text \<open>One sample: the histogram, the buffer \<^verbatim>\<open>sqr_dists\<close> and the indices queried so far.\<close>

definition sampleStep ::
    "(nat \<Rightarrow> nat \<Rightarrow> nat) \<Rightarrow> (float32 array3 list \<Rightarrow> float32 array3 \<Rightarrow> nat \<Rightarrow> real list) \<Rightarrow>
     int \<Rightarrow> PointSet \<Rightarrow> nat \<Rightarrow> (nat \<times> nat) list \<times> real list \<times> nat list \<Rightarrow>
     error + (nat \<times> nat) list \<times> real list \<times> nat list" where
  "sampleStep randomDis knnSearch kNeighbors pSet i st =
     (case st of (dist_map, sqr_dists, queried) \<Rightarrow>
        let idx = randomDis (size_sub (count pSet) 1) i
        in bindE (vec_at (points pSet) idx) (\<lambda>q.
             let found = take (nat (kNeighbors + 1)) (knnSearch (points pSet) q (nat (kNeighbors + 1)));
                 sqr_dists' = overlay found sqr_dists
             in bindE (sampleKey kNeighbors sqr_dists')
                  (\<lambda>k. Inr (bump k dist_map, sqr_dists', queried @ [idx]))))"

fun sampleLoop ::
    "(nat \<Rightarrow> nat \<Rightarrow> nat) \<Rightarrow> (float32 array3 list \<Rightarrow> float32 array3 \<Rightarrow> nat \<Rightarrow> real list) \<Rightarrow>
     int \<Rightarrow> PointSet \<Rightarrow> nat list \<Rightarrow> (nat \<times> nat) list \<times> real list \<times> nat list \<Rightarrow>
     error + (nat \<times> nat) list \<times> real list \<times> nat list" where
  "sampleLoop randomDis knnSearch kNeighbors pSet [] st = Inr st"
| "sampleLoop randomDis knnSearch kNeighbors pSet (i # is) st =
     (case sampleStep randomDis knnSearch kNeighbors pSet i st of
        Inl e \<Rightarrow> Inl e
      | Inr st' \<Rightarrow> sampleLoop randomDis knnSearch kNeighbors pSet is st')"

text \<open>The most frequent bucket: a strictly larger count replaces the current choice.\<close>

definition mostFrequent :: "(nat \<times> nat) list \<Rightarrow> nat" where
  "mostFrequent dist_map =
     fst (foldl (\<lambda>(d, max_val) (key, cnt). if cnt > max_val then (key, cnt) else (d, max_val))
            (0, 0) dist_map)"

text \<open>
  \<^verbatim>\<open>PointSet::spacing\<close>: the value returned, the Dataset afterwards and the indices whose
  neighbours were queried, in order. \<^verbatim>\<open>kNeighbors + 1\<close> overflows for the largest \<^verbatim>\<open>int\<close>, and
  a negative \<^verbatim>\<open>count\<close> makes the constructor of \<^verbatim>\<open>indices\<close> raise \<^verbatim>\<open>std::length_error\<close>.
  Building the spatial index is assumed not to fail.
\<close>

definition spacing ::
    "(nat \<Rightarrow> nat \<Rightarrow> nat) \<Rightarrow> (float32 array3 list \<Rightarrow> float32 array3 \<Rightarrow> nat \<Rightarrow> real list) \<Rightarrow>
     int \<Rightarrow> PointSet \<Rightarrow> error + real \<times> PointSet \<times> nat list" where
  "spacing randomDis knnSearch kNeighbors pSet =
     (if m_spacing pSet \<noteq> - 1 then Inr (m_spacing pSet, pSet, [])
      else if kNeighbors = 2147483647 then Inl UndefinedBehaviour
      else if kNeighbors + 1 < 0 then Inl LengthError
      else bindE (sampleLoop randomDis knnSearch kNeighbors pSet [0..<min (count pSet) 10000]
                    ([], replicate (nat (kNeighbors + 1)) 0, []))
             (\<lambda>(dist_map, sqr_dists, queried).
                let d = mostFrequent dist_map;
                    v = max (1 / 100) (real d / 100)
                in Inr (v, pSet\<lparr>kdTree := True, m_spacing := v\<rparr>, queried)))"

section \<open>Notions of the specification and of the proofs\<close>

text \<open>
  The invariant of the data model: every optional column is empty or has one entry per
  point.
\<close>

definition column_invariant :: "PointSet \<Rightarrow> bool" where
  "column_invariant pSet =
     ((length (colors pSet) = 0 \<or> length (colors pSet) = count pSet) \<and>
      (length (normals pSet) = 0 \<or> length (normals pSet) = count pSet) \<and>
      (length (views pSet) = 0 \<or> length (views pSet) = count pSet) \<and>
      (length (labels pSet) = 0 \<or> length (labels pSet) = count pSet))"

text \<open>
  The root-mean-square distance over the neighbour ranks \<open>1..k-1\<close>, as the specification
  words the statistic of a sample, from the squared distances.
\<close>

definition spec_rms :: "int \<Rightarrow> real list \<Rightarrow> real" where
  "spec_rms kNeighbors sqr_dists =
     sqrt ((\<Sum>j\<leftarrow>[1..<nat kNeighbors]. sqr_dists ! j) / real_of_int (kNeighbors - 1))"

text \<open>
  The number of bytes of one binary record, by the columns present.
\<close>

definition recordSize :: "bool \<Rightarrow> bool \<Rightarrow> bool \<Rightarrow> bool \<Rightarrow> nat" where
  "recordSize hasN hasC hasV hasL =
     12 + (if hasN then 12 else 0) + (if hasC then 3 else 0) +
     (if hasV then 1 else 0) + (if hasL then 1 else 0)"

definition layoutSize :: "layout \<Rightarrow> nat" where
  "layoutSize l = recordSize (l_hasNormals l) (l_hasColors l) (l_hasViews l) (l_hasLabels l)"

text \<open>
  For the proofs: the text of lines, the bytes \<^verbatim>\<open>fastPlySavePointSet\<close> writes for record
  \<open>i\<close>, the layout its header declares, and the effect of decoding that record into \<open>r\<close>.
\<close>

definition unlines :: "string list \<Rightarrow> string" where
  "unlines ls = concat (map (\<lambda>l. l @ endl) ls)"

definition recordBytes :: "PointSet \<Rightarrow> nat \<Rightarrow> string" where
  "recordBytes pSet i =
     floats3_bytes (points pSet ! i) @
     (if hasNormals pSet then floats3_bytes (normals pSet ! i) else []) @
     (if hasColors pSet then bytes3_chars (colors pSet ! i) else []) @
     (if hasViews pSet then [byte_char (views pSet ! i)] else []) @
     (if hasLabels pSet then [byte_char (labels pSet ! i)] else [])"

definition layoutOf :: "PointSet \<Rightarrow> layout" where
  "layoutOf pSet =
     \<lparr>l_count = count pSet, l_ascii = False, l_hasNormals = hasNormals pSet,
      l_hasColors = hasColors pSet, l_hasViews = hasViews pSet, l_hasLabels = hasLabels pSet,
      l_redIdx = 0, l_greenIdx = 1, l_blueIdx = 2\<rparr>"

definition storeRecord :: "PointSet \<Rightarrow> nat \<Rightarrow> PointSet \<Rightarrow> PointSet" where
  "storeRecord src i r =
     (let r1 = r\<lparr>points := (points r)[i := points src ! i]\<rparr>;
          r2 = (if hasNormals src then r1\<lparr>normals := (normals r1)[i := normals src ! i]\<rparr> else r1);
          r3 = (if hasColors src then r2\<lparr>colors := (colors r2)[i := colors src ! i]\<rparr> else r2);
          r4 = (if hasViews src then r3\<lparr>views := (views r3)[i := views src ! i]\<rparr> else r3);
          r5 = (if hasLabels src then r4\<lparr>labels := (labels r4)[i := labels src ! i]\<rparr> else r4)
      in r5)"

text \<open>
  For the proofs about short input: the stream after \<open>n\<close> more bytes were requested, the
  coordinates a record read leaves at its index, and the points column after the loop.
\<close>

definition skip :: "nat \<Rightarrow> istream \<Rightarrow> istream" where
  "skip n s = snd (read n s)"

definition pointRead :: "istream \<Rightarrow> float32 array3 \<Rightarrow> float32 array3" where
  "pointRead s old = bytes_floats3 (overlay (fst (read 12 s)) (floats3_bytes old))"

fun loopPoints :: "layout \<Rightarrow> nat list \<Rightarrow> istream \<Rightarrow> float32 array3 list \<Rightarrow> float32 array3 list" where
  "loopPoints l [] s pts = pts"
| "loopPoints l (i # is) s pts = loopPoints l is (skip (layoutSize l) s) (pts[i := pointRead s (pts ! i)])"

section \<open>Example inputs\<close>

text \<open>
  Closed examples need a value for what the functions take from outside: a stand-in for
  the text branch of the reader (the binary files of the examples never reach it), a
  generator that always draws index 0, a spatial index that reports distance 0 for every
  neighbour, and the identity as fallback label table.
\<close>

definition exampleAscii :: "layout \<Rightarrow> PointSet \<Rightarrow> istream \<Rightarrow> error + PointSet" where
  "exampleAscii l r reader = Inr r"

definition exampleDraw :: "nat \<Rightarrow> nat \<Rightarrow> nat" where
  "exampleDraw hi i = 0"

definition exampleKnn :: "float32 array3 list \<Rightarrow> float32 array3 \<Rightarrow> nat \<Rightarrow> real list" where
  "exampleKnn pts q n = replicate n 0"

definition asprsExample :: "int \<Rightarrow> int" where
  "asprsExample label = label"

text \<open>Datasets.\<close>

definition fullExample :: PointSet where
  "fullExample = newPointSet\<lparr>points := [(1, 2, 3)], colors := [(10, 20, 30)], normals := [(4, 5, 6)],
     labels := [5], views := [1]\<rparr>"

definition cachedExample :: PointSet where
  "cachedExample = newPointSet\<lparr>points := [(1, 2, 3)], m_spacing := 1 / 100\<rparr>"

definition unlabelledExample :: PointSet where
  "unlabelledExample = newPointSet\<lparr>points := [(1, 2, 3)]\<rparr>"

definition labelledExample :: PointSet where
  "labelledExample = newPointSet\<lparr>points := [(1, 2, 3)], colors := [(10, 20, 30)], labels := [5]\<rparr>"

definition groundExample :: PointSet where
  "groundExample = newPointSet\<lparr>points := [(1, 2, 3), (4, 5, 6), (7, 8, 9)], labels := [5, 7, 5]\<rparr>"

definition pairExample :: PointSet where
  "pairExample = newPointSet\<lparr>points := [(1, 2, 3), (4, 5, 6)]\<rparr>"

definition derivedExample :: PointSet where
  "derivedExample = newPointSet\<lparr>points := [(7, 8, 9)], colors := [(70, 80, 90)], pointMap := [4]\<rparr>"

text \<open>
  Files: a header whose element line names faces; a header that declares green in slot 0
  and blue in slot 3 and no red, with one record of zero bytes; the header of the
  specification's own example (red, blue, one other property, green); and a body of 17
  bytes, one complete record of three floats and five bytes of a second.
\<close>

definition faceHeader :: string where
  "faceHeader = ''ply\<newline>format binary_little_endian 1.0\<newline>element face 10\<newline>property float x\<newline>property float y\<newline>property float z\<newline>end_header\<newline>''"

definition gapHeader :: string where
  "gapHeader = ''ply\<newline>format binary_little_endian 1.0\<newline>element vertex 1\<newline>property float x\<newline>property float y\<newline>property float z\<newline>property uchar green\<newline>property float u\<newline>property float v\<newline>property uchar blue\<newline>end_header\<newline>''"

definition zeroRecord :: string where
  "zeroRecord = [CHR 0x00, CHR 0x00, CHR 0x00, CHR 0x00, CHR 0x00, CHR 0x00, CHR 0x00, CHR 0x00,
     CHR 0x00, CHR 0x00, CHR 0x00, CHR 0x00, CHR 0x00, CHR 0x00, CHR 0x00]"

definition rgbGapHeader :: string where
  "rgbGapHeader = ''ply\<newline>format binary_little_endian 1.0\<newline>element vertex 1\<newline>property float x\<newline>property float y\<newline>property float z\<newline>property uchar red\<newline>property uchar blue\<newline>property float u\<newline>property uchar green\<newline>end_header\<newline>''"


section \<open>Facts about text and streams\<close>

lemma of_char_digit: "d < 10 \<Longrightarrow> (of_char (digit_char d) :: nat) = 48 + d"
  by (simp add: digit_char_def)

lemma isdigit_digit_char: "d < 10 \<Longrightarrow> isdigit (digit_char d)"
  by (simp add: isdigit_def of_char_digit)

lemma show_nat_digits: "c \<in> set (show_nat n) \<Longrightarrow> isdigit c"
proof (induction n arbitrary: c rule: show_nat.induct)
  case (1 n)
  show ?case
  proof (cases "n < 10")
    case True
    with "1.prems" show ?thesis
      by (simp add: show_nat.simps [of n] isdigit_digit_char)
  next
    case False
    with "1.prems" "1.IH" show ?thesis
      by (auto simp add: show_nat.simps [of n] isdigit_digit_char)
  qed
qed

lemma show_nat_nonempty: "show_nat n \<noteq> []"
  by (subst show_nat.simps) simp

lemma digits_value_show_nat: "digits_value (show_nat n) = n"
proof (induction n rule: show_nat.induct)
  case (1 n)
  show ?case
  proof (cases "n < 10")
    case True
    then show ?thesis
      by (simp add: show_nat.simps [of n] digits_value_def of_char_digit)
  next
    case False
    with "1.IH" show ?thesis
      by (simp add: show_nat.simps [of n] digits_value_def of_char_digit)
  qed
qed

lemma isdigit_not_space: "isdigit c \<Longrightarrow> \<not> isspace c"
  by (auto simp: isdigit_def isspace_def)

lemma isdigit_not_sign: "isdigit c \<Longrightarrow> c \<noteq> CHR ''-'' \<and> c \<noteq> CHR ''+'' \<and> c \<noteq> CHR '' '' \<and> c \<noteq> CHR 0x0A"
  by (auto simp: isdigit_def)

lemma stoi_show_nat: "n \<le> 2147483647 \<Longrightarrow> stoi (show_nat n) = Inr (int n)"
proof -
  assume n: "n \<le> 2147483647"
  obtain c cs where cs: "show_nat n = c # cs"
    using show_nat_nonempty [of n] by (cases "show_nat n") auto
  have d: "\<forall>x\<in>set (show_nat n). isdigit x"
    using show_nat_digits by blast
  then have c: "isdigit c" using cs by simp
  have 1: "dropWhile isspace (show_nat n) = show_nat n"
    using c cs by (simp add: isdigit_not_space)
  have 2: "takeWhile isdigit (show_nat n) = show_nat n"
    using d by (simp add: takeWhile_eq_all_conv)
  have 3: "take 1 (show_nat n) \<noteq> ''-''" "take 1 (show_nat n) \<noteq> ''+''"
    using isdigit_not_sign [OF c] cs by simp_all
  have 4: "\<not> (int n < - 2147483648 \<or> 2147483647 < int n)"
    using n by linarith
  show ?thesis
    unfolding stoi_def Let_def 1
    by (simp only: 2 3 4 digits_value_show_nat show_nat_nonempty if_False simp_thms)
qed

lemma show_nat_no_space [simp]: "CHR '' '' \<notin> set (show_nat n)"
  using show_nat_digits [of "CHR '' ''" n] by (auto simp: isdigit_def)

lemma show_nat_no_newline [simp]: "CHR 0x0A \<notin> set (show_nat n)"
  using show_nat_digits [of "CHR 0x0A" n] by (auto simp: isdigit_def)

lemma getline_delim: "d \<notin> set xs \<Longrightarrow> getline d (Good (xs @ d # rest)) str = (xs, Good rest, True)"
proof -
  assume d: "d \<notin> set xs"
  then have "takeWhile (\<lambda>c. c \<noteq> d) (xs @ d # rest) = xs"
    by (induction xs) auto
  moreover from d have "dropWhile (\<lambda>c. c \<noteq> d) (xs @ d # rest) = d # rest"
    by (induction xs) auto
  ultimately show ?thesis
    by (simp add: getline_def)
qed

lemma getline_last: "d \<notin> set xs \<Longrightarrow> xs \<noteq> [] \<Longrightarrow> getline d (Good xs) str = (xs, NotGood, True)"
  by (simp add: getline_def)

lemma getline_empty: "getline d (Good []) str = ([], NotGood, False)"
  by (simp add: getline_def)

lemma getline_notgood: "getline d NotGood str = (str, NotGood, False)"
  by (simp add: getline_def)

lemma tokens_vertex: "tokens_loop (Good (''element vertex '' @ show_nat n)) [] = [''element'', ''vertex'', show_nat n]"
proof -
  have a: "''element vertex '' @ show_nat n = ''element'' @ CHR '' '' # (''vertex'' @ CHR '' '' # show_nat n)"
    by simp
  have 1: "getline CHR '' '' (Good (''element'' @ CHR '' '' # (''vertex'' @ CHR '' '' # show_nat n))) s = (''element'', Good (''vertex'' @ CHR '' '' # show_nat n), True)" for s
    by (rule getline_delim) simp
  have 2: "getline CHR '' '' (Good (''vertex'' @ CHR '' '' # show_nat n)) s = (''vertex'', Good (show_nat n), True)" for s
    by (rule getline_delim) simp
  have 3: "getline CHR '' '' (Good (show_nat n)) s = (show_nat n, NotGood, True)" for s
    by (rule getline_last) (simp_all add: show_nat_nonempty)
  show ?thesis
    unfolding a
    apply (subst tokens_loop.simps, simp only: 1 prod.case if_True)
    apply (subst tokens_loop.simps, simp only: 2 prod.case if_True)
    apply (subst tokens_loop.simps, simp only: 3 prod.case if_True)
    apply (subst tokens_loop.simps, simp only: getline_notgood prod.case if_False)
    done
qed

lemma to_size_t_nat: "n < 18446744073709551616 \<Longrightarrow> to_size_t (int n) = n"
  by (simp add: to_size_t_def)

lemma stoi_show_nat_large: "2147483647 < n \<Longrightarrow> stoi (show_nat n) = Inl StoiOutOfRange"
proof -
  assume n: "2147483647 < n"
  obtain c cs where cs: "show_nat n = c # cs"
    using show_nat_nonempty [of n] by (cases "show_nat n") auto
  have d: "\<forall>x\<in>set (show_nat n). isdigit x"
    using show_nat_digits by blast
  then have c: "isdigit c" using cs by simp
  have 1: "dropWhile isspace (show_nat n) = show_nat n"
    using c cs by (simp add: isdigit_not_space)
  have 2: "takeWhile isdigit (show_nat n) = show_nat n"
    using d by (simp add: takeWhile_eq_all_conv)
  have 3: "take 1 (show_nat n) \<noteq> ''-''" "take 1 (show_nat n) \<noteq> ''+''"
    using isdigit_not_sign [OF c] cs by simp_all
  have 4: "int n < - 2147483648 \<or> 2147483647 < int n"
    using n by linarith
  show ?thesis
    unfolding stoi_def Let_def 1
    by (simp only: 2 3 4 digits_value_show_nat show_nat_nonempty if_False if_True simp_thms)
qed

lemma getVertexCount_vertex: "n \<le> 2147483647 \<Longrightarrow> getVertexCount (''element vertex '' @ show_nat n) = Inr n"
  unfolding getVertexCount_def tokens_vertex Let_def
  by (simp add: stoi_show_nat bindE_def to_size_t_nat)

lemma getVertexCount_large:
  "2147483647 < n \<Longrightarrow> getVertexCount (''element vertex '' @ show_nat n) = Inl StoiOutOfRange"
  unfolding getVertexCount_def tokens_vertex Let_def
  by (simp add: stoi_show_nat_large bindE_def)

lemma unlines_Nil [simp]: "unlines [] = []"
  by (simp add: unlines_def)

lemma getline_unlines:
  "CHR 0x0A \<notin> set l \<Longrightarrow>
   getline (CHR 0x0A) (Good (unlines (l # ls) @ body)) str = (l, Good (unlines ls @ body), True)"
  using getline_delim [of "CHR 0x0A" l "unlines ls @ body" str]
  by (simp add: unlines_def endl_def)

lemma headerText_unlines:
  "headerText n hN hC hV hL =
     unlines ([''ply'', ''format binary_little_endian 1.0'', ''comment Generated by OpenPointClass'',
               ''element vertex '' @ show_nat n,
               ''property float x'', ''property float y'', ''property float z''] @
              (if hN then [''property float nx'', ''property float ny'', ''property float nz''] else []) @
              (if hC then [''property uchar red'', ''property uchar green'', ''property uchar blue''] else []) @
              (if hV then [''property uchar views''] else []) @
              (if hL then [''property uchar classification''] else []) @
              [''end_header''])"
  by (simp add: headerText_def unlines_def endl_def)

lemmas header_eval = remove_cr_def getVertexLine_def getVertexLine_loop.simps starts_with_def
     bindE_def checkHeader_def substr_def size_sub_def
     scan_loop.simps scanLine_def hasHeader_def orE_def scan_init_def resolveColors_def Let_def

lemma readHeader_large_count:
  assumes "2147483647 < n"
  shows "readHeader (headerText n hN hC hV hL @ body) = Some (Inl StoiOutOfRange)"
  unfolding readHeader_def headerText_unlines
  using getVertexCount_large [OF assms]
  by (cases hN; cases hC; cases hV; cases hL) (simp_all add: getline_unlines header_eval)

lemma readHeader_headerText:
  assumes "n \<le> 2147483647"
  shows "readHeader (headerText n hN hC hV hL @ body) =
     Some (Inr (\<lparr>l_count = n, l_ascii = False, l_hasNormals = hN, l_hasColors = hC,
                 l_hasViews = hV, l_hasLabels = hL, l_redIdx = 0, l_greenIdx = 1, l_blueIdx = 2\<rparr>,
                Good body))"
  unfolding readHeader_def headerText_unlines
  using getVertexCount_vertex [OF assms]
  by (cases hN; cases hC; cases hV; cases hL) (simp_all add: getline_unlines header_eval)

section \<open>Round trip through the native codec\<close>

lemma char_byte_byte_char [simp]: "char_byte (byte_char w) = w"
proof -
  have "unat w < 256"
    using unsigned_less [of w, where ?'a = nat] by simp
  then show ?thesis
    unfolding char_byte_def byte_char_def by simp
qed

lemma length_le_bytes [simp]: "length (le_bytes k n) = k"
  by (induction k arbitrary: n) auto

lemma le_value_le_bytes: "le_value (le_bytes k n) = n mod 256 ^ k"
proof (induction k arbitrary: n)
  case 0
  show ?case by simp
next
  case (Suc k)
  have "n mod (256 * 256 ^ k) = 256 * (n div 256 mod 256 ^ k) + n mod 256"
    by (rule mod_mult2_eq)
  with Suc show ?case by simp
qed

lemma length_float_bytes [simp]: "length (float_bytes w) = 4"
  by (simp add: float_bytes_def)

lemma bytes_float_float_bytes [simp]: "bytes_float (float_bytes w) = w"
proof -
  have "unat w < 256 ^ 4"
    using unsigned_less [of w, where ?'a = nat] by simp
  then have "le_value (le_bytes 4 (unat w)) = unat w"
    by (simp only: le_value_le_bytes mod_less)
  then show ?thesis
    by (simp add: bytes_float_def float_bytes_def)
qed

lemma length_floats3_bytes [simp]: "length (floats3_bytes p) = 12"
  by (cases p) (simp add: floats3_bytes_def)

lemma bytes_floats3_floats3_bytes [simp]: "bytes_floats3 (floats3_bytes p) = p"
  by (cases p) (simp add: floats3_bytes_def bytes_floats3_def)

lemma length_bytes3_chars [simp]: "length (bytes3_chars c) = 3"
  by (cases c) (simp add: bytes3_chars_def)

lemma chars_bytes3_bytes3_chars [simp]: "chars_bytes3 (bytes3_chars c) = c"
  by (cases c) (simp add: bytes3_chars_def chars_bytes3_def)

lemma read_exact: "length b = n \<Longrightarrow> read n (Good (b @ rest)) = (b, Good rest)"
  by (simp add: read_def)

lemma overlay_full: "length got = length buf \<Longrightarrow> overlay got buf = got"
  by (simp add: overlay_def)

lemma array3_set_0: "array3_set a 0 v = Inr (v, fst (snd a), snd (snd a))"
  by (cases a) (simp add: array3_set_def)

lemma array3_set_1: "array3_set a (Suc 0) v = Inr (fst a, v, snd (snd a))"
  by (cases a) (simp add: array3_set_def)

lemma array3_set_2: "array3_set a 2 v = Inr (fst a, fst (snd a), v)"
  by (cases a) (simp add: array3_set_def)

lemma read_one: "read (Suc 0) (Good (b # rest)) = ([b], Good rest)"
  by (simp add: read_def)

lemma readBinaryRecord_written:
  "readBinaryRecord (layoutOf src) i (r, Good (recordBytes src i @ rest), c) =
     Inr (storeRecord src i r, Good rest, if hasColors src then colors src ! i else c)"
  unfolding readBinaryRecord_def readColors_def layoutOf_def recordBytes_def storeRecord_def
  by (simp add: read_exact read_one overlay_full array3_set_0 array3_set_1 array3_set_2 Let_def bindE_def)

lemma readBinaryLoop_written:
  "readBinaryLoop (layoutOf src) is (r, Good (concat (map (recordBytes src) is) @ rest), c) =
     Inr (foldl (\<lambda>r i. storeRecord src i r) r is, Good rest,
          foldl (\<lambda>c i. if hasColors src then colors src ! i else c) c is)"
  by (induction "is" arbitrary: r c) (simp_all add: readBinaryRecord_written)

lemma foldl_update_prefix:
  "n \<le> length ys \<Longrightarrow> length xs = length ys \<Longrightarrow>
   foldl (\<lambda>xs i. xs[i := ys ! i]) xs [0..<n] = take n ys @ drop n xs"
proof (induction n)
  case 0
  show ?case by simp
next
  case (Suc n)
  then have "foldl (\<lambda>xs i. xs[i := ys ! i]) xs [0..<Suc n] = (take n ys @ drop n xs)[n := ys ! n]"
    by simp
  also have "\<dots> = take n ys @ (drop n xs)[0 := ys ! n]"
    using Suc.prems by (simp add: list_update_append)
  also have "\<dots> = take n ys @ ys ! n # drop (Suc n) xs"
    using Suc.prems by (simp add: Cons_nth_drop_Suc [symmetric] del: Cons_nth_drop_Suc)
  also have "\<dots> = take (Suc n) ys @ drop (Suc n) xs"
    using Suc.prems by (simp add: take_Suc_conv_app_nth)
  finally show ?case .
qed

lemma foldl_update_all:
  "length xs = length ys \<Longrightarrow> foldl (\<lambda>xs i. xs[i := ys ! i]) xs [0..<length ys] = ys"
  by (simp add: foldl_update_prefix)

lemma foldl_update_Nil: "foldl (\<lambda>xs i. xs[i := f i]) [] is = []"
  by (induction "is") simp_all

lemma storeRecord_sel [simp]:
  "points (storeRecord src i r) = (points r)[i := points src ! i]"
  "normals (storeRecord src i r) = (if hasNormals src then (normals r)[i := normals src ! i] else normals r)"
  "colors (storeRecord src i r) = (if hasColors src then (colors r)[i := colors src ! i] else colors r)"
  "views (storeRecord src i r) = (if hasViews src then (views r)[i := views src ! i] else views r)"
  "labels (storeRecord src i r) = (if hasLabels src then (labels r)[i := labels src ! i] else labels r)"
  "pointMap (storeRecord src i r) = pointMap r"
  "base (storeRecord src i r) = base r"
  "kdTree (storeRecord src i r) = kdTree r"
  "m_spacing (storeRecord src i r) = m_spacing r"
  by (simp_all add: storeRecord_def Let_def)

lemma foldl_storeRecord_sel:
  "points (foldl (\<lambda>r i. storeRecord src i r) r is) = foldl (\<lambda>xs i. xs[i := points src ! i]) (points r) is"
  "normals (foldl (\<lambda>r i. storeRecord src i r) r is) =
     (if hasNormals src then foldl (\<lambda>xs i. xs[i := normals src ! i]) (normals r) is else normals r)"
  "colors (foldl (\<lambda>r i. storeRecord src i r) r is) =
     (if hasColors src then foldl (\<lambda>xs i. xs[i := colors src ! i]) (colors r) is else colors r)"
  "views (foldl (\<lambda>r i. storeRecord src i r) r is) =
     (if hasViews src then foldl (\<lambda>xs i. xs[i := views src ! i]) (views r) is else views r)"
  "labels (foldl (\<lambda>r i. storeRecord src i r) r is) =
     (if hasLabels src then foldl (\<lambda>xs i. xs[i := labels src ! i]) (labels r) is else labels r)"
  "pointMap (foldl (\<lambda>r i. storeRecord src i r) r is) = pointMap r"
  "base (foldl (\<lambda>r i. storeRecord src i r) r is) = base r"
  "kdTree (foldl (\<lambda>r i. storeRecord src i r) r is) = kdTree r"
  "m_spacing (foldl (\<lambda>r i. storeRecord src i r) r is) = m_spacing r"
  by (induction "is" arbitrary: r; simp)+

lemma allocate_layoutOf:
  "count pSet \<le> 2147483647 \<Longrightarrow>
   allocate (layoutOf pSet) = Inr (newPointSet
     \<lparr>points := replicate (count pSet) (0, 0, 0),
      colors := (if hasColors pSet then replicate (count pSet) (0, 0, 0) else []),
      normals := (if hasNormals pSet then replicate (count pSet) (0, 0, 0) else []),
      labels := (if hasLabels pSet then replicate (count pSet) 0 else []),
      views := (if hasViews pSet then replicate (count pSet) 0 else [])\<rparr>)"
  by (simp add: allocate_def layoutOf_def vector_max_size_def)

lemma decode_written_records:
  assumes "column_invariant pSet"
  shows "foldl (\<lambda>r i. storeRecord pSet i r)
           (newPointSet
             \<lparr>points := replicate (count pSet) (0, 0, 0),
              colors := (if hasColors pSet then replicate (count pSet) (0, 0, 0) else []),
              normals := (if hasNormals pSet then replicate (count pSet) (0, 0, 0) else []),
              labels := (if hasLabels pSet then replicate (count pSet) 0 else []),
              views := (if hasViews pSet then replicate (count pSet) 0 else [])\<rparr>)
           [0..<count pSet] =
         pSet\<lparr>pointMap := [], base := None, kdTree := False, m_spacing := - 1\<rparr>"
proof (rule PointSet.equality)
  let ?r = "foldl (\<lambda>r i. storeRecord pSet i r)
           (newPointSet
             \<lparr>points := replicate (count pSet) (0, 0, 0),
              colors := (if hasColors pSet then replicate (count pSet) (0, 0, 0) else []),
              normals := (if hasNormals pSet then replicate (count pSet) (0, 0, 0) else []),
              labels := (if hasLabels pSet then replicate (count pSet) 0 else []),
              views := (if hasViews pSet then replicate (count pSet) 0 else [])\<rparr>)
           [0..<count pSet]"
  let ?d = "pSet\<lparr>pointMap := [], base := None, kdTree := False, m_spacing := - 1\<rparr>"
  show "points ?r = points ?d"
    using foldl_update_all [of "replicate (count pSet) (0, 0, 0)" "points pSet"]
    by (simp add: foldl_storeRecord_sel count_def)
  show "normals ?r = normals ?d"
    using assms foldl_update_all [of "replicate (count pSet) (0, 0, 0)" "normals pSet"]
    by (auto simp add: foldl_storeRecord_sel count_def column_invariant_def hasNormals_def)
  show "colors ?r = colors ?d"
    using assms foldl_update_all [of "replicate (count pSet) (0, 0, 0)" "colors pSet"]
    by (auto simp add: foldl_storeRecord_sel count_def column_invariant_def hasColors_def)
  show "views ?r = views ?d"
    using assms foldl_update_all [of "replicate (count pSet) 0" "views pSet"]
    by (auto simp add: foldl_storeRecord_sel count_def column_invariant_def hasViews_def)
  show "labels ?r = labels ?d"
    using assms foldl_update_all [of "replicate (count pSet) 0" "labels pSet"]
    by (auto simp add: foldl_storeRecord_sel count_def column_invariant_def hasLabels_def)
qed (simp_all add: foldl_storeRecord_sel newPointSet_def)

lemma writeRecord_inv:
  "column_invariant pSet \<Longrightarrow> i < count pSet \<Longrightarrow> writeRecord pSet i = Inr (recordBytes pSet i)"
  by (auto simp add: writeRecord_def recordBytes_def vec_at_def bindE_def column_invariant_def
      count_def hasNormals_def hasColors_def hasViews_def hasLabels_def)

lemma writeRecords_inv:
  "column_invariant pSet \<Longrightarrow> \<forall>i\<in>set is. i < count pSet \<Longrightarrow>
   writeRecords pSet is = Inr (concat (map (recordBytes pSet) is))"
  by (induction "is") (simp_all add: writeRecord_inv bindE_def)

lemma fastPlySavePointSet_inv:
  "column_invariant pSet \<Longrightarrow>
   fastPlySavePointSet pSet =
     Inr (headerText (count pSet) (hasNormals pSet) (hasColors pSet) (hasViews pSet) (hasLabels pSet) @
          concat (map (recordBytes pSet) [0..<count pSet]))"
  by (simp add: fastPlySavePointSet_def writeRecords_inv bindE_def)

lemma read_written:
  assumes "column_invariant pSet" and "count pSet \<le> 2147483647"
  shows "fastPlyReadPointSet asciiRecords color0
           (Some (headerText (count pSet) (hasNormals pSet) (hasColors pSet) (hasViews pSet) (hasLabels pSet) @
                  concat (map (recordBytes pSet) [0..<count pSet]))) =
         Some (Inr (pSet\<lparr>pointMap := [], base := None, kdTree := False, m_spacing := - 1\<rparr>))"
proof -
  let ?body = "concat (map (recordBytes pSet) [0..<count pSet])"
  have h: "readHeader (headerText (count pSet) (hasNormals pSet) (hasColors pSet) (hasViews pSet)
             (hasLabels pSet) @ ?body) = Some (Inr (layoutOf pSet, Good ?body))"
    using readHeader_headerText [OF assms(2)] by (simp add: layoutOf_def)
  have b: "l_ascii (layoutOf pSet) = False" "l_count (layoutOf pSet) = count pSet"
    by (simp_all add: layoutOf_def)
  have r: "readBinaryLoop (layoutOf pSet) [0..<count pSet] (r, Good ?body, color0) =
     Inr (foldl (\<lambda>r i. storeRecord pSet i r) r [0..<count pSet], Good [],
          foldl (\<lambda>c i. if hasColors pSet then colors pSet ! i else c) color0 [0..<count pSet])" for r
    using readBinaryLoop_written [of pSet "[0..<count pSet]" r "[]" color0] by simp
  show ?thesis
    unfolding fastPlyReadPointSet_def
    by (simp add: h b r allocate_layoutOf [OF assms(2)] bindE_def
        decode_written_records [OF assms(1)])
qed

lemma saveThenLoad_large_count:
  assumes "column_invariant pSet" and "2147483647 < count pSet"
  shows "saveThenLoad asciiRecords color0 pSet = Some (Inl StoiOutOfRange)"
  by (simp add: saveThenLoad_def fastPlySavePointSet_inv [OF assms(1)] fastPlyReadPointSet_def
      readHeader_large_count [OF assms(2)])

section \<open>The colour check on distinct slots\<close>

lemma offsets_sum_iff_set:
  fixes r g b :: nat
  assumes "r \<noteq> g" "g \<noteq> b" "r \<noteq> b"
  defines "m \<equiv> min (min r g) b"
  shows "(r - m) + (g - m) + (b - m) = 3 \<longleftrightarrow> {r - m, g - m, b - m} = {0, 1, 2}"
proof -
  define x where "x = r - m"
  define y where "y = g - m"
  define z where "z = b - m"
  have d: "x \<noteq> y" "y \<noteq> z" "x \<noteq> z"
    using assms unfolding x_def y_def z_def m_def by linarith+
  have z0: "x = 0 \<or> y = 0 \<or> z = 0"
    unfolding x_def y_def z_def m_def by linarith
  have "x + y + z = 3 \<longleftrightarrow> {x, y, z} = {0, 1, 2}"
  proof
    assume s: "x + y + z = 3"
    with d z0 have "(x = 0 \<and> y = 1 \<and> z = 2) \<or> (x = 0 \<and> y = 2 \<and> z = 1) \<or> (x = 1 \<and> y = 0 \<and> z = 2) \<or>
        (x = 2 \<and> y = 0 \<and> z = 1) \<or> (x = 1 \<and> y = 2 \<and> z = 0) \<or> (x = 2 \<and> y = 1 \<and> z = 0)"
      by presburger
    then show "{x, y, z} = {0, 1, 2}"
      by (elim disjE) (simp_all add: insert_commute)
  next
    assume e: "{x, y, z} = {0, 1, 2}"
    then have "x \<in> {0, 1, 2}" "y \<in> {0, 1, 2}" "z \<in> {0, 1, 2}"
      by blast+
    with d show "x + y + z = 3"
      by (elim insertE) simp_all
  qed
  then show ?thesis
    by (simp add: x_def y_def z_def)
qed

lemma resolveColors_distinct:
  assumes "s_redIdx st \<noteq> s_greenIdx st" and "s_greenIdx st \<noteq> s_blueIdx st"
    and "s_redIdx st \<noteq> s_blueIdx st"
  shows "resolveColors st = Inl ColorsNotContiguous \<longleftrightarrow>
     {s_redIdx st - min (min (s_redIdx st) (s_greenIdx st)) (s_blueIdx st),
      s_greenIdx st - min (min (s_redIdx st) (s_greenIdx st)) (s_blueIdx st),
      s_blueIdx st - min (min (s_redIdx st) (s_greenIdx st)) (s_blueIdx st)} \<noteq> {0, 1, 2}"
  using offsets_sum_iff_set [OF assms]
  by (simp add: resolveColors_def Let_def)

section \<open>Evaluating the reader on concrete files\<close>

lemmas reader_eval = readHeader_def getline_def remove_cr_def getVertexLine_def getVertexLine_loop.simps starts_with_def
  getVertexCount_def stoi_def isspace_def isdigit_def digits_value_def to_size_t_def bindE_def
  checkHeader_def substr_def size_sub_def scan_loop.simps scanLine_def hasHeader_def orE_def
  scan_init_def resolveColors_def Let_def

lemmas body_eval = fastPlyReadPointSet_def allocate_def vector_max_size_def newPointSet_def
  readBinaryRecord_def readColors_def read_def overlay_def bytes_floats3_def floats3_bytes_def
  bytes_float_def float_bytes_def chars_bytes3_def bytes3_chars_def char_byte_def byte_char_def
  array3_set_def char_of_eq_iff upt_conv_Cons

lemma le_bytes_4:
  "le_bytes 4 n = [char_of n, char_of (n div 256), char_of (n div 65536), char_of (n div 16777216)]"
proof -
  have 4: "(4::nat) = Suc (Suc (Suc (Suc 0)))"
    by simp
  have "n div 256 div 256 = n div 65536" "n div 256 div 256 div 256 = n div 16777216"
    by (simp_all add: div_mult2_eq [symmetric])
  then show ?thesis
    unfolding 4 by simp
qed

lemma claimed_gap_rejected:
  "readHeader (rgbGapHeader @ body) = Some (Inl ColorsNotContiguous)"
  by (simp add: rgbGapHeader_def reader_eval)

section \<open>Reading from a stream that runs out\<close>


lemma skip_0 [simp]: "skip 0 s = s"
  by (cases s) (simp_all add: skip_def read_def)

lemma skip_NotGood [simp]: "skip n NotGood = NotGood"
  by (simp add: skip_def read_def)


lemma pointRead_NotGood [simp]: "pointRead NotGood old = old"
  by (simp add: pointRead_def read_def overlay_def)








lemma length_loopPoints [simp]: "length (loopPoints l is s pts) = length pts"
  by (induction "is" arbitrary: s pts) simp_all



section \<open>Facts about remapping, appending and spacing\<close>

lemma getClassMappings_short_name:
  "length filename < 9 \<Longrightarrow> getClassMappings filename jsonMappings = Inl SubstrOutOfRange"
  by (auto simp add: getClassMappings_def substr_def size_sub_def bindE_def)

lemma getClassMappings_long_name:
  "9 \<le> length filename \<Longrightarrow> getClassMappings filename jsonMappings = jsonMappings"
  by (auto simp add: getClassMappings_def substr_def size_sub_def bindE_def)

lemma remapLoop_all:
  "\<forall>idx\<in>set is. idx < length (labels r) \<Longrightarrow>
   remapLoop f is r =
     Inr (r\<lparr>labels := foldl (\<lambda>ls idx. ls[idx := of_int (f (uint (ls ! idx)))]) (labels r) is\<rparr>)"
proof (induction "is" arbitrary: r)
  case Nil
  show ?case by simp
next
  case (Cons idx "is")
  have "remapLoop f is (r\<lparr>labels := (labels r)[idx := word_of_int (f (uint (labels r ! idx)))]\<rparr>) =
    Inr (r\<lparr>labels := (labels r)[idx := word_of_int (f (uint (labels r ! idx)))]\<rparr>
          \<lparr>labels := foldl (\<lambda>ls idx. ls[idx := of_int (f (uint (ls ! idx)))])
              (labels (r\<lparr>labels := (labels r)[idx := word_of_int (f (uint (labels r ! idx)))]\<rparr>)) is\<rparr>)"
    by (rule Cons.IH) (use Cons.prems in simp)
  with Cons.prems show ?case
    by (simp add: vec_at_def bindE_def)
qed

lemma foldl_map_in_place:
  "n \<le> length ls \<Longrightarrow>
   foldl (\<lambda>ls idx. ls[idx := g (ls ! idx)]) ls [0..<n] = map g (take n ls) @ drop n ls"
proof (induction n)
  case 0
  show ?case by simp
next
  case (Suc n)
  then have "foldl (\<lambda>ls idx. ls[idx := g (ls ! idx)]) ls [0..<Suc n] =
      (map g (take n ls) @ drop n ls)[n := g ((map g (take n ls) @ drop n ls) ! n)]"
    by simp
  also have "\<dots> = map g (take n ls) @ (drop n ls)[0 := g (ls ! n)]"
    using Suc.prems by (simp add: list_update_append nth_append)
  also have "\<dots> = map g (take n ls) @ g (ls ! n) # drop (Suc n) ls"
    using Suc.prems by (simp add: Cons_nth_drop_Suc [symmetric] del: Cons_nth_drop_Suc)
  also have "\<dots> = map g (take (Suc n) ls) @ drop (Suc n) ls"
    using Suc.prems by (simp add: take_Suc_conv_app_nth)
  finally show ?case .
qed

lemma appendPoint_columns:
  assumes "idx < count src" and "idx < length (colors src)"
  shows "appendPoint dst src idx =
     Inr (dst\<lparr>points := points dst @ [points src ! idx], colors := colors dst @ [colors src ! idx]\<rparr>)"
  using assms by (simp add: appendPoint_def vec_at_def bindE_def count_def)

lemma spacing_first_call:
  assumes "m_spacing pSet = - 1"
    and "spacing randomDis knnSearch kNeighbors pSet = Inr (v, pSet', queried)"
  shows "1 / 100 \<le> v \<and> m_spacing pSet' = v"
proof -
  from assms obtain dist_map where
    "v = max (1 / 100) (real (mostFrequent dist_map) / 100)"
    "pSet' = pSet\<lparr>kdTree := True, m_spacing := v\<rparr>"
    by (auto simp add: spacing_def bindE_def Let_def split: if_splits sum.splits prod.splits)
  then show ?thesis
    by simp
qed

lemma spacing_cached:
  "m_spacing pSet \<noteq> - 1 \<Longrightarrow> spacing randomDis knnSearch kNeighbors pSet = Inr (m_spacing pSet, pSet, [])"
  by (simp add: spacing_def)

section \<open>Operations that keep the column invariant\<close>

lemma readBinaryRecord_lengths:
  assumes "readBinaryRecord l i (r, s, c) = Inr (r', s', c')"
  shows "length (points r') = length (points r) \<and> length (colors r') = length (colors r) \<and>
     length (normals r') = length (normals r) \<and> length (views r') = length (views r) \<and>
     length (labels r') = length (labels r)"
  using assms unfolding readBinaryRecord_def readColors_def bindE_def Let_def
  by (cases "l_hasNormals l"; cases "l_hasColors l"; cases "l_hasViews l"; cases "l_hasLabels l")
    (auto simp add: case_prod_beta split: sum.splits)

lemma readBinaryLoop_lengths:
  assumes "readBinaryLoop l is (r, s, c) = Inr (r', s', c')"
  shows "length (points r') = length (points r) \<and> length (colors r') = length (colors r) \<and>
     length (normals r') = length (normals r) \<and> length (views r') = length (views r) \<and>
     length (labels r') = length (labels r)"
  using assms
proof (induction "is" arbitrary: r s c)
  case Nil
  then show ?case by simp
next
  case (Cons i "is")
  from Cons.prems obtain r1 s1 c1 where
    1: "readBinaryRecord l i (r, s, c) = Inr (r1, s1, c1)"
    and 2: "readBinaryLoop l is (r1, s1, c1) = Inr (r', s', c')"
    by (auto split: sum.splits)
  from Cons.IH [OF 2] readBinaryRecord_lengths [OF 1] show ?case
    by simp
qed

lemma allocate_invariant:
  "allocate l = Inr r \<Longrightarrow> column_invariant r \<and> count r = l_count l"
  by (auto simp add: allocate_def column_invariant_def count_def newPointSet_def split: if_splits)

lemma loaded_invariant:
  assumes "readHeader content = Some (Inr (l, reader))" and "\<not> l_ascii l"
    and "fastPlyReadPointSet asciiRecords color0 (Some content) = Some (Inr r)"
  shows "column_invariant r \<and> count r = l_count l"
proof -
  from assms obtain r0 reader' color' where
    a: "allocate l = Inr r0"
    and b: "readBinaryLoop l [0..<l_count l] (r0, reader, color0) = Inr (r, reader', color')"
    by (auto simp add: fastPlyReadPointSet_def bindE_def split: sum.splits)
  from allocate_invariant [OF a] readBinaryLoop_lengths [OF b] show ?thesis
    by (auto simp add: column_invariant_def count_def)
qed

lemma remapLoop_columns:
  assumes "remapLoop f is r = Inr r'"
  shows "points r' = points r \<and> colors r' = colors r \<and> normals r' = normals r \<and>
     views r' = views r \<and> length (labels r') = length (labels r)"
  using assms
proof (induction "is" arbitrary: r)
  case Nil
  then show ?case by simp
next
  case (Cons idx "is")
  from Cons.prems have
    "remapLoop f is (r\<lparr>labels := (labels r)[idx := of_int (f (uint (labels r ! idx)))]\<rparr>) = Inr r'"
    by (auto simp add: vec_at_def bindE_def split: if_splits)
  from Cons.IH [OF this] show ?case
    by simp
qed

lemma remapLabels_invariant:
  assumes "remapLabels mappings trainingCodes asprs2TrainCodes r = Inr r'" and "column_invariant r"
  shows "column_invariant r'"
proof (cases "hasLabels r")
  case False
  with assms show ?thesis
    by (simp add: remapLabels_def)
next
  case True
  with assms(1) obtain f where "remapLoop f [0..<count r] r = Inr r'"
    by (auto simp add: remapLabels_def split: if_splits)
  from remapLoop_columns [OF this] assms(2) show ?thesis
    by (simp add: column_invariant_def count_def)
qed

lemma spacing_columns:
  assumes "spacing randomDis knnSearch kNeighbors pSet = Inr (v, pSet', queried)"
  shows "points pSet' = points pSet \<and> colors pSet' = colors pSet \<and> normals pSet' = normals pSet \<and>
     views pSet' = views pSet \<and> labels pSet' = labels pSet"
  using assms
  by (auto simp add: spacing_def bindE_def Let_def split: if_splits sum.splits prod.splits)

lemma spacing_invariant:
  assumes "spacing randomDis knnSearch kNeighbors pSet = Inr (v, pSet', queried)"
    and "column_invariant pSet"
  shows "column_invariant pSet'"
  using spacing_columns [OF assms(1)] assms(2)
  by (simp add: column_invariant_def count_def)

lemma trackPoint_invariant:
  assumes "trackPoint dst src idx = Inr src'" and "column_invariant src"
  shows "column_invariant src'"
  using assms by (auto simp add: trackPoint_def column_invariant_def count_def split: if_splits)

section \<open>The claims\<close>

subsection \<open>C1: round trip through the native codec\<close>

text \<open>
  C1 (as amended). For every Dataset that satisfies the column invariant and has at most
  \<open>2^31 - 1\<close> points, with any combination of optional columns populated, writing it with
  the native writer and reading the bytes back with the native reader succeeds and returns
  the five columns (points, normals, colors, views, labels) unchanged; the fields that the
  file does not carry (pointMap, base, the spatial index and the spacing cache) are those
  of a fresh Dataset.
\<close>

theorem roundtrip_columns:
  assumes "column_invariant pSet" and "count pSet \<le> 2147483647"
  shows "saveThenLoad asciiRecords color0 pSet =
         Some (Inr (pSet\<lparr>pointMap := [], base := None, kdTree := False, m_spacing := - 1\<rparr>))"
proof -
  from assms(1) have "fastPlySavePointSet pSet =
     Inr (headerText (count pSet) (hasNormals pSet) (hasColors pSet) (hasViews pSet) (hasLabels pSet) @
          concat (map (recordBytes pSet) [0..<count pSet]))"
    by (rule fastPlySavePointSet_inv)
  with read_written [OF assms] show ?thesis
    by (simp add: saveThenLoad_def)
qed

text \<open>The witness: a Dataset of one point with all four optional columns.\<close>

theorem roundtrip_columns_witness:
  "column_invariant fullExample \<and> count fullExample \<le> 2147483647 \<and>
   saveThenLoad exampleAscii (0, 0, 0) fullExample = Some (Inr fullExample)"
proof -
  have 1: "column_invariant fullExample"
    by (simp add: column_invariant_def fullExample_def count_def newPointSet_def)
  have 2: "count fullExample \<le> 2147483647"
    by (simp add: fullExample_def count_def newPointSet_def)
  have 3: "fullExample\<lparr>pointMap := [], base := None, kdTree := False, m_spacing := - 1\<rparr> = fullExample"
    by (simp add: fullExample_def newPointSet_def)
  show ?thesis
    using roundtrip_columns [OF 1 2, of exampleAscii "(0, 0, 0)"] 1 2 by (simp add: 3)
qed

text \<open>
  C1 as stated fails: a Dataset whose spacing has been computed does not come back equal
  field for field, the reader returns it with the spacing cache at the sentinel.
\<close>

theorem roundtrip_resets_spacing_cache:
  "saveThenLoad exampleAscii (0, 0, 0) cachedExample = Some (Inr (cachedExample\<lparr>m_spacing := - 1\<rparr>)) \<and>
   cachedExample\<lparr>m_spacing := - 1\<rparr> \<noteq> cachedExample"
proof -
  have 1: "column_invariant cachedExample"
    by (simp add: column_invariant_def cachedExample_def count_def newPointSet_def)
  have 2: "count cachedExample \<le> 2147483647"
    by (simp add: cachedExample_def count_def newPointSet_def)
  have 3: "cachedExample\<lparr>pointMap := [], base := None, kdTree := False, m_spacing := - 1\<rparr> =
           cachedExample\<lparr>m_spacing := - 1\<rparr>"
    by (simp add: cachedExample_def newPointSet_def)
  have 4: "m_spacing (cachedExample\<lparr>m_spacing := - 1\<rparr>) \<noteq> m_spacing cachedExample"
    by (simp add: cachedExample_def newPointSet_def)
  then have "cachedExample\<lparr>m_spacing := - 1\<rparr> \<noteq> cachedExample"
    by metis
  then show ?thesis
    using read_written [OF 1 2, of exampleAscii "(0, 0, 0)"]
    by (simp add: saveThenLoad_def fastPlySavePointSet_inv [OF 1] 3)
qed

subsection \<open>C2: a body shorter than the declared records\<close>




subsection \<open>C3: spacing of an empty Dataset\<close>

text \<open>
  C3 (as amended). For every Dataset with zero points and no cached spacing, and every
  neighbour count from \<open>-1\<close> to \<open>2^31 - 2\<close>, the spacing estimator draws no sample and
  queries no neighbour, and it returns and caches \<open>0.01\<close>.
\<close>

theorem empty_dataset_spacing:
  assumes "count pSet = 0" and "m_spacing pSet = - 1" and "- 1 \<le> kNeighbors" and "kNeighbors < 2147483647"
  shows "spacing randomDis knnSearch kNeighbors pSet =
     Inr (1 / 100, pSet\<lparr>kdTree := True, m_spacing := 1 / 100\<rparr>, [])"
  using assms by (simp add: spacing_def bindE_def mostFrequent_def Let_def)

text \<open>The witness: the fresh empty Dataset and the default neighbour count 3.\<close>

theorem empty_dataset_spacing_witness:
  "count newPointSet = 0 \<and> m_spacing newPointSet = - 1 \<and>
   spacing exampleDraw exampleKnn 3 newPointSet =
     Inr (1 / 100, newPointSet\<lparr>kdTree := True, m_spacing := 1 / 100\<rparr>, [])"
proof -
  have 1: "count newPointSet = 0"
    by (simp add: count_def newPointSet_def)
  have 2: "m_spacing newPointSet = - 1"
    by (simp add: newPointSet_def)
  show ?thesis
    using empty_dataset_spacing [OF 1 2, of 3 exampleDraw exampleKnn] 1 2 by simp
qed

text \<open>C3 as stated fails: on the empty Dataset the estimator returns a value, not an error.\<close>

theorem empty_dataset_spacing_succeeds:
  "count newPointSet = 0 \<and>
   spacing exampleDraw exampleKnn 3 newPointSet =
     Inr (1 / 100, newPointSet\<lparr>kdTree := True, m_spacing := 1 / 100\<rparr>, [])"
  by (simp add: spacing_def bindE_def mostFrequent_def count_def newPointSet_def Let_def)

subsection \<open>C4: the statistic of one sample\<close>

text \<open>
  C4. The claim takes the statistic of a sample to be the root-mean-square of the
  distances at ranks \<open>1..k-1\<close>. The code adds the distances at these ranks and divides by
  \<open>k\<close>: for \<open>k = 3\<close> and squared distances \<open>0, 9, 9, 9\<close> it feeds \<open>2\<close>, bucket 200, to the
  histogram, where the root-mean-square of the two distances is \<open>3\<close>, bucket 300.
\<close>

theorem sample_statistic_is_not_rms:
  "sampleStatistic 3 [0, 9, 9, 9] = 2 \<and> bucketKey (sampleStatistic 3 [0, 9, 9, 9]) = 200 \<and>
   spec_rms 3 [0, 9, 9, 9] = 3 \<and> bucketKey (spec_rms 3 [0, 9, 9, 9]) = 300 \<and>
   sampleKey 3 [0, 9, 9, 9] = Inr 200"
proof -
  have s: "sqrt 9 = 3"
    using real_sqrt_abs [of 3] by simp
  have u: "[Suc 0..<3] = [1, 2]"
    by (simp add: upt_conv_Cons)
  have 1: "sampleStatistic 3 [0, 9, 9, 9] = 2"
    by (simp add: sampleStatistic_def to_size_t_def u s)
  have 2: "spec_rms 3 [0, 9, 9, 9] = 3"
    by (simp add: spec_rms_def u s)
  show ?thesis
    by (simp add: 1 2 bucketKey_def sampleKey_def to_size_t_def)
qed

subsection \<open>C5: colour offsets that are not contiguous\<close>

text \<open>
  C5. The claim requires the re-based colour slots to be exactly \<open>{0, 1, 2}\<close>. The code
  tests that they add up to 3: a header with green in slot 0, blue in slot 3 and no red
  resolves to the offsets \<open>(0, 0, 3)\<close> and is accepted, and decoding its first record stores
  a colour component outside the three-element array.
\<close>

theorem color_gap_accepted:
  "readHeader (gapHeader @ zeroRecord) =
     Some (Inr (\<lparr>l_count = 1, l_ascii = False, l_hasNormals = False, l_hasColors = True,
                  l_hasViews = False, l_hasLabels = False, l_redIdx = 0, l_greenIdx = 0, l_blueIdx = 3\<rparr>,
                Good zeroRecord)) \<and>
   fastPlyReadPointSet exampleAscii (0, 0, 0) (Some (gapHeader @ zeroRecord)) =
     Some (Inl UndefinedBehaviour)"
proof -
  have h: "readHeader (gapHeader @ zeroRecord) =
     Some (Inr (\<lparr>l_count = 1, l_ascii = False, l_hasNormals = False, l_hasColors = True,
                  l_hasViews = False, l_hasLabels = False, l_redIdx = 0, l_greenIdx = 0, l_blueIdx = 3\<rparr>,
                Good zeroRecord))"
    by (simp add: gapHeader_def reader_eval)
  have "fastPlyReadPointSet exampleAscii (0, 0, 0) (Some (gapHeader @ zeroRecord)) =
     Some (Inl UndefinedBehaviour)"
    unfolding fastPlyReadPointSet_def option.case h
    by (simp add: zeroRecord_def body_eval bindE_def le_bytes_4)
  with h show ?thesis
    by simp
qed

subsection \<open>C6: the element line\<close>

text \<open>
  C6. The claim requires the first two tokens of the element line to be \<open>element\<close> and
  \<open>vertex\<close>. The code rejects the line only when both differ: \<open>element face 10\<close> yields
  the record count 10 and the header is accepted.
\<close>

theorem element_face_accepted:
  "getVertexCount ''element face 10'' = Inr 10 \<and>
   readHeader faceHeader =
     Some (Inr (\<lparr>l_count = 10, l_ascii = False, l_hasNormals = False, l_hasColors = False,
                  l_hasViews = False, l_hasLabels = False, l_redIdx = 0, l_greenIdx = 1, l_blueIdx = 2\<rparr>,
                Good []))"
proof -
  have tokens: "tokens_loop (Good ''element face 10'') [] = [''element'', ''face'', ''10'']"
    by (simp add: getline_def)
  have number: "stoi ''10'' = Inr 10"
    by (simp add: stoi_def isspace_def isdigit_def digits_value_def)
  have "getVertexCount ''element face 10'' = Inr 10"
    unfolding getVertexCount_def tokens Let_def
    by (simp add: number bindE_def to_size_t_def)
  moreover have "readHeader faceHeader =
     Some (Inr (\<lparr>l_count = 10, l_ascii = False, l_hasNormals = False, l_hasColors = False,
                  l_hasViews = False, l_hasLabels = False, l_redIdx = 0, l_greenIdx = 1, l_blueIdx = 2\<rparr>,
                Good []))"
    by (simp add: faceHeader_def reader_eval)
  ultimately show ?thesis
    by simp
qed

subsection \<open>C7: remapping with an explicit mapping\<close>

text \<open>
  C7. With a non-empty explicit mapping, remapping a Dataset that has one label per point
  replaces every label: a label with an entry in the mapping becomes the training code of
  its mapped name, every other label the training code of \<open>unassigned\<close> (stored as
  \<^verbatim>\<open>uint8_t\<close>, as every label is).
\<close>

theorem explicit_mapping_replaces_every_label:
  assumes "mappings \<noteq> []" and "hasLabels r" and "length (labels r) = count r"
  shows "remapLabels mappings trainingCodes asprs2TrainCodes r =
     Inr (r\<lparr>labels := map (\<lambda>label. of_int
            (case map_of mappings (uint label) of
               Some name \<Rightarrow> lookupCode trainingCodes name
             | None \<Rightarrow> lookupCode trainingCodes ''unassigned'')) (labels r)\<rparr>)"
proof -
  have "remapLoop (mappedLabel mappings trainingCodes) [0..<count r] r =
     Inr (r\<lparr>labels := foldl (\<lambda>ls idx. ls[idx := of_int (mappedLabel mappings trainingCodes (uint (ls ! idx)))])
            (labels r) [0..<count r]\<rparr>)"
    by (rule remapLoop_all) (simp add: assms(3))
  moreover have "foldl (\<lambda>ls idx. ls[idx := of_int (mappedLabel mappings trainingCodes (uint (ls ! idx)))])
       (labels r) [0..<count r] =
     map (\<lambda>label. of_int (mappedLabel mappings trainingCodes (uint label))) (labels r)"
    using foldl_map_in_place [of "count r" "labels r"
        "\<lambda>label. of_int (mappedLabel mappings trainingCodes (uint label))"]
    by (simp add: assms(3))
  ultimately show ?thesis
    using assms(1,2) by (simp add: remapLabels_def mappedLabel_def)
qed

text \<open>
  The witness: the mapping \<open>{5: ground}\<close> with the training codes \<open>{ground: 2, unassigned: 0}\<close>
  turns the labels \<open>[5, 7, 5]\<close> into \<open>[2, 0, 2]\<close>.
\<close>

theorem explicit_mapping_replaces_every_label_witness:
  "[(5, ''ground'')] \<noteq> [] \<and> hasLabels groundExample \<and>
   length (labels groundExample) = count groundExample \<and>
   remapLabels [(5, ''ground'')] [(''ground'', 2), (''unassigned'', 0)] asprsExample groundExample =
     Inr (groundExample\<lparr>labels := [2, 0, 2]\<rparr>)"
proof -
  have 1: "[(5::int, ''ground'')] \<noteq> []"
    by simp
  have 2: "hasLabels groundExample"
    by (simp add: hasLabels_def groundExample_def newPointSet_def)
  have 3: "length (labels groundExample) = count groundExample"
    by (simp add: count_def groundExample_def newPointSet_def)
  have 4: "labels groundExample = [5, 7, 5]"
    by (simp add: groundExample_def newPointSet_def)
  show ?thesis
    using explicit_mapping_replaces_every_label [OF 1 2 3,
        of "[(''ground'', 2), (''unassigned'', 0)]" asprsExample] 1 2 3
    by (simp add: 4 lookupCode_def)
qed

subsection \<open>C8: spacing is computed once\<close>

text \<open>
  C8. Every successful first call of the spacing estimator (one on a Dataset whose cache
  holds the sentinel \<open>-1\<close>) returns and caches a value of at least \<open>0.01\<close>, which is not the
  sentinel; every later call on the resulting Dataset returns the same value and the same
  Dataset without a single neighbour query, whatever the neighbour count, the generator
  and the index.
\<close>

theorem spacing_computed_once:
  assumes "m_spacing pSet = - 1"
    and "spacing randomDis knnSearch kNeighbors pSet = Inr (v, pSet', queried)"
  shows "1 / 100 \<le> v \<and> v \<noteq> - 1 \<and> m_spacing pSet' = v \<and>
     spacing randomDis' knnSearch' kNeighbors' pSet' = Inr (v, pSet', [])"
proof -
  from spacing_first_call [OF assms] have v: "1 / 100 \<le> v" "m_spacing pSet' = v"
    by simp_all
  then have "m_spacing pSet' \<noteq> - 1"
    by simp
  from spacing_cached [OF this] v show ?thesis
    by simp
qed

text \<open>The witness: two points, first with the neighbour count 3, then with 7.\<close>

theorem spacing_computed_once_witness:
  "m_spacing pairExample = - 1 \<and>
   spacing exampleDraw exampleKnn 3 pairExample =
     Inr (1 / 100, pairExample\<lparr>kdTree := True, m_spacing := 1 / 100\<rparr>, [0, 0]) \<and>
   spacing exampleDraw exampleKnn 7 (pairExample\<lparr>kdTree := True, m_spacing := 1 / 100\<rparr>) =
     Inr (1 / 100, pairExample\<lparr>kdTree := True, m_spacing := 1 / 100\<rparr>, [])"
proof -
  have 1: "m_spacing pairExample = - 1"
    by (simp add: pairExample_def newPointSet_def)
  have u: "[0..<2] = [0, 1]" "[Suc 0..<3] = [1, 2]"
    by (simp_all add: upt_conv_Cons)
  have r: "replicate 4 (0::real) = [0, 0, 0, 0]"
    by (simp add: numeral_eq_Suc)
  have 2: "spacing exampleDraw exampleKnn 3 pairExample =
     Inr (1 / 100, pairExample\<lparr>kdTree := True, m_spacing := 1 / 100\<rparr>, [0, 0])"
    by (simp add: spacing_def bindE_def mostFrequent_def Let_def sampleStep_def sampleKey_def
        sampleStatistic_def bucketKey_def to_size_t_def size_sub_def vec_at_def overlay_def
        exampleDraw_def exampleKnn_def count_def pairExample_def newPointSet_def u r)
  from spacing_computed_once [OF 1 2, of exampleDraw exampleKnn 7] 1 2 show ?thesis
    by simp
qed

subsection \<open>C9: appendPoint and the column invariant\<close>

text \<open>
  C9 (as amended). On a Dataset that satisfies the invariant, the spacing estimator, the
  label remapping and \<^verbatim>\<open>trackPoint\<close> return a Dataset that satisfies it. \<^verbatim>\<open>appendPoint\<close>,
  applied to a derived Dataset that satisfies the invariant and an index valid for the
  points and colors of the source, appends the point of the source at that index to points
  and its colour to colors, and leaves normals, views and labels as they are; its result
  satisfies the invariant exactly when the derived Dataset had one colour per point and no
  normals, views or labels.
\<close>

theorem column_invariant_operations:
  assumes "column_invariant pSet"
  shows "(\<forall>v pSet' queried. spacing randomDis knnSearch kNeighbors pSet = Inr (v, pSet', queried) \<longrightarrow>
            column_invariant pSet') \<and>
     (\<forall>r'. remapLabels mappings trainingCodes asprs2TrainCodes pSet = Inr r' \<longrightarrow> column_invariant r') \<and>
     (\<forall>src'. trackPoint dst pSet idx = Inr src' \<longrightarrow> column_invariant src') \<and>
     (idx < count src \<and> idx < length (colors src) \<longrightarrow>
        (\<exists>dst'. appendPoint pSet src idx = Inr dst' \<and>
           points dst' = points pSet @ [points src ! idx] \<and>
           colors dst' = colors pSet @ [colors src ! idx] \<and>
           count dst' = count pSet + 1 \<and>
           normals dst' = normals pSet \<and> views dst' = views pSet \<and> labels dst' = labels pSet \<and>
           (column_invariant dst' \<longleftrightarrow>
              length (colors pSet) = count pSet \<and> normals pSet = [] \<and> views pSet = [] \<and>
              labels pSet = [])))"
proof -
  have "\<exists>dst'. appendPoint pSet src idx = Inr dst' \<and>
     points dst' = points pSet @ [points src ! idx] \<and>
     colors dst' = colors pSet @ [colors src ! idx] \<and>
     count dst' = count pSet + 1 \<and>
     normals dst' = normals pSet \<and> views dst' = views pSet \<and> labels dst' = labels pSet \<and>
     (column_invariant dst' \<longleftrightarrow>
        length (colors pSet) = count pSet \<and> normals pSet = [] \<and> views pSet = [] \<and> labels pSet = [])"
    if "idx < count src" "idx < length (colors src)"
    using assms unfolding appendPoint_columns [OF that]
    by (auto simp add: column_invariant_def count_def)
  with assms show ?thesis
    by (blast intro: spacing_invariant remapLabels_invariant trackPoint_invariant)
qed

text \<open>
  The witness: a derived Dataset of one point with its colour, to which a point of another
  Dataset is appended, whose spacing is computed and in which a point is tracked.
\<close>

theorem column_invariant_operations_witness:
  "column_invariant derivedExample \<and> 0 < count fullExample \<and> 0 < length (colors fullExample) \<and>
   (\<exists>dst'. appendPoint derivedExample fullExample 0 = Inr dst' \<and>
      points dst' = [(7, 8, 9), (1, 2, 3)] \<and> colors dst' = [(70, 80, 90), (10, 20, 30)] \<and>
      column_invariant dst') \<and>
   spacing exampleDraw exampleKnn 3 derivedExample =
     Inr (1 / 100, derivedExample\<lparr>kdTree := True, m_spacing := 1 / 100\<rparr>, [0]) \<and>
   column_invariant (derivedExample\<lparr>kdTree := True, m_spacing := 1 / 100\<rparr>) \<and>
   trackPoint pairExample derivedExample 0 = Inr (derivedExample\<lparr>pointMap := [1]\<rparr>) \<and>
   column_invariant (derivedExample\<lparr>pointMap := [1]\<rparr>)"
proof -
  have 1: "column_invariant derivedExample"
    by (simp add: column_invariant_def derivedExample_def newPointSet_def count_def)
  have 2: "0 < count fullExample"
    by (simp add: fullExample_def newPointSet_def count_def)
  have 3: "0 < length (colors fullExample)"
    by (simp add: fullExample_def newPointSet_def)
  have 4: "length (colors derivedExample) = count derivedExample \<and> normals derivedExample = [] \<and>
     views derivedExample = [] \<and> labels derivedExample = []"
    by (simp add: derivedExample_def newPointSet_def count_def)
  have u: "[0..<1] = [0]" "[Suc 0..<3] = [1, 2]"
    by (simp_all add: upt_conv_Cons)
  have r: "replicate 4 (0::real) = [0, 0, 0, 0]"
    by (simp add: numeral_eq_Suc)
  have 5: "spacing exampleDraw exampleKnn 3 derivedExample =
     Inr (1 / 100, derivedExample\<lparr>kdTree := True, m_spacing := 1 / 100\<rparr>, [0])"
    by (simp add: spacing_def bindE_def mostFrequent_def Let_def sampleStep_def sampleKey_def
        sampleStatistic_def bucketKey_def to_size_t_def size_sub_def vec_at_def overlay_def
        exampleDraw_def exampleKnn_def count_def derivedExample_def newPointSet_def u r)
  have 6: "trackPoint pairExample derivedExample 0 = Inr (derivedExample\<lparr>pointMap := [1]\<rparr>)"
    by (simp add: trackPoint_def size_sub_def count_def derivedExample_def pairExample_def newPointSet_def)
  have 7: "points derivedExample @ [points fullExample ! 0] = [(7, 8, 9), (1, 2, 3)]"
    "colors derivedExample @ [colors fullExample ! 0] = [(70, 80, 90), (10, 20, 30)]"
    by (simp_all add: derivedExample_def fullExample_def newPointSet_def)
  from column_invariant_operations [OF 1, of exampleDraw exampleKnn 3 _ _ _ pairExample 0 fullExample]
  have a: "column_invariant (derivedExample\<lparr>kdTree := True, m_spacing := 1 / 100\<rparr>)"
    and b: "column_invariant (derivedExample\<lparr>pointMap := [1]\<rparr>)"
    and c: "\<exists>dst'. appendPoint derivedExample fullExample 0 = Inr dst' \<and>
      points dst' = [(7, 8, 9), (1, 2, 3)] \<and> colors dst' = [(70, 80, 90), (10, 20, 30)] \<and>
      column_invariant dst'"
    using 2 3 4 5 6 unfolding 7 [symmetric] by blast+
  with 1 2 3 5 6 show ?thesis
    by blast
qed

text \<open>
  C9 as stated fails: appending to a derived Dataset with one point, one colour and one
  label leaves it with two points, two colours and one label.
\<close>

theorem appendPoint_breaks_invariant:
  "column_invariant labelledExample \<and>
   appendPoint labelledExample fullExample 0 =
     Inr (labelledExample\<lparr>points := [(1, 2, 3), (1, 2, 3)], colors := [(10, 20, 30), (10, 20, 30)]\<rparr>) \<and>
   labels (labelledExample\<lparr>points := [(1, 2, 3), (1, 2, 3)], colors := [(10, 20, 30), (10, 20, 30)]\<rparr>) = [5] \<and>
   \<not> column_invariant
     (labelledExample\<lparr>points := [(1, 2, 3), (1, 2, 3)], colors := [(10, 20, 30), (10, 20, 30)]\<rparr>)"
  by (simp add: appendPoint_def vec_at_def bindE_def labelledExample_def fullExample_def newPointSet_def
      column_invariant_def count_def)

subsection \<open>C10: the label reads of savePointSet\<close>

text \<open>
  C10. The claim is that \<^verbatim>\<open>savePointSet\<close> reads the labels column only inside its bounds.
  For a Dataset with one point and no labels, which satisfies the invariant, its first
  loop reads \<^verbatim>\<open>labels[0]\<close> of an empty vector; the native writer, called on its own,
  tests \<^verbatim>\<open>hasLabels\<close> first and writes the file.
\<close>

theorem savePointSet_reads_missing_label:
  "column_invariant unlabelledExample \<and>
   savePointSet pdalSave ''.ply'' unlabelledExample = Inl UndefinedBehaviour \<and>
   fastPlySavePointSet unlabelledExample =
     Inr (headerText 1 False False False False @ recordBytes unlabelledExample 0)"
  by (simp add: savePointSet_def fastPlySavePointSet_def writeRecord_def recordBytes_def vec_at_def bindE_def
      unlabelledExample_def newPointSet_def count_def column_invariant_def
      hasNormals_def hasColors_def hasViews_def hasLabels_def)

end
